theory Spec2Isabelle
  imports Complex_Main
begin

section \<open>Position sizing stage of pysystemtrade: data model\<close>

text \<open>
  The development embeds \<^verbatim>\<open>src/systems/positionsizing.py\<close>. Python floats are
  taken as exact reals; a cell of a time series is a finite number, the missing value
  \<open>NaN\<close>, or an infinity \<open>Inf\<close> (what elementwise division by zero produces in a data
  frame; its sign is not tracked, since a real zero has none). Rounding and overflow are
  outside the model.
\<close>

datatype cell = Val real | NaN | Inf

fun cell_mult :: "cell \<Rightarrow> cell \<Rightarrow> cell" where
  "cell_mult NaN _ = NaN"
| "cell_mult _ NaN = NaN"
| "cell_mult (Val a) (Val b) = Val (a * b)"
| "cell_mult Inf Inf = Inf"
| "cell_mult Inf (Val b) = (if b = 0 then NaN else Inf)"
| "cell_mult (Val a) Inf = (if a = 0 then NaN else Inf)"

fun cell_div :: "cell \<Rightarrow> cell \<Rightarrow> cell" where
  "cell_div NaN _ = NaN"
| "cell_div _ NaN = NaN"
| "cell_div (Val a) (Val b) = (if b = 0 then (if a = 0 then NaN else Inf) else Val (a / b))"
| "cell_div (Val a) Inf = Val 0"
| "cell_div Inf (Val b) = Inf"
| "cell_div Inf Inf = NaN"

text \<open>
  A Tx1 \<^verbatim>\<open>pd.DataFrame\<close>: its column labels and its rows, one cell per date, the dates
  (day numbers) in index order.
\<close>

record dataframe =
  columns :: "string list"
  rows :: "(nat \<times> cell) list"

definition df_map :: "(cell \<Rightarrow> cell) \<Rightarrow> dataframe \<Rightarrow> dataframe" where
  "df_map f df = df\<lparr>rows := map (\<lambda>(d, c). (d, f c)) (rows df)\<rparr>"

text \<open>\<^verbatim>\<open>x * df\<close>, \<^verbatim>\<open>df * x\<close>, \<^verbatim>\<open>x / df\<close> and \<^verbatim>\<open>df / x\<close> for a float \<open>x\<close>: elementwise.\<close>

definition scalar_times_df :: "real \<Rightarrow> dataframe \<Rightarrow> dataframe" where
  "scalar_times_df x df = df_map (\<lambda>c. cell_mult (Val x) c) df"

definition df_times_scalar :: "dataframe \<Rightarrow> real \<Rightarrow> dataframe" where
  "df_times_scalar df x = df_map (\<lambda>c. cell_mult c (Val x)) df"

definition scalar_div_df :: "real \<Rightarrow> dataframe \<Rightarrow> dataframe" where
  "scalar_div_df x df = df_map (\<lambda>c. cell_div (Val x) c) df"

definition df_div_scalar :: "dataframe \<Rightarrow> real \<Rightarrow> dataframe" where
  "df_div_scalar df x = df_map (\<lambda>c. cell_div c (Val x)) df"

text \<open>
  Outer alignment of two date-indexed columns: every date of either operand, in order,
  with \<open>NaN\<close> where an operand has no row for the date.
\<close>

fun align :: "(nat \<times> cell) list \<Rightarrow> (nat \<times> cell) list \<Rightarrow> (nat \<times> cell \<times> cell) list" where
  "align [] ys = map (\<lambda>(e, y). (e, NaN, y)) ys"
| "align xs [] = map (\<lambda>(d, x). (d, x, NaN)) xs"
| "align ((d, x) # xs) ((e, y) # ys) =
     (if d < e then (d, x, NaN) # align xs ((e, y) # ys)
      else if e < d then (e, NaN, y) # align ((d, x) # xs) ys
      else (d, x, y) # align xs ys)"

text \<open>Forward fill: a missing cell takes the last cell before it that is not missing.\<close>

fun ffill_from :: "cell \<Rightarrow> cell list \<Rightarrow> cell list" where
  "ffill_from prev [] = []"
| "ffill_from prev (c # cs) =
     (if c = NaN then prev # ffill_from prev cs else c # ffill_from c cs)"

definition ffill :: "cell list \<Rightarrow> cell list" where
  "ffill cs = ffill_from NaN cs"

text \<open>
  Modelled from the spec: \<^verbatim>\<open>multiply_df_single_column\<close> of \<^verbatim>\<open>syscore.pdutils\<close> is not
  among the sources. The spec (4.2) has the two series aligned, each operand
  forward-filled or not as its flag of \<^verbatim>\<open>ffill\<close> says, and then multiplied elementwise.
  The spec does not name the column of the product; every caller relabels it, and the
  model keeps the label of the first operand.
\<close>

definition multiply_df_single_column ::
    "dataframe \<Rightarrow> dataframe \<Rightarrow> bool \<times> bool \<Rightarrow> dataframe" where
  "multiply_df_single_column a b ffill_flags =
     (let aligned = align (rows a) (rows b);
          a_cells = map (\<lambda>(d, x, y). x) aligned;
          b_cells = map (\<lambda>(d, x, y). y) aligned;
          a_cells = (if fst ffill_flags then ffill a_cells else a_cells);
          b_cells = (if snd ffill_flags then ffill b_cells else b_cells)
      in \<lparr>columns = columns a,
          rows = zip (map fst aligned) (map (\<lambda>(x, y). cell_mult x y) (zip a_cells b_cells))\<rparr>)"

subsection \<open>Objects, errors and the parent system\<close>

text \<open>The dictionary built by \<^verbatim>\<open>_get_vol_target\<close>, one field per key.\<close>

record vol_target_dict =
  base_currency :: string
  percentage_vol_target :: real
  notional_trading_capital :: real
  annual_cash_vol_target :: real
  daily_cash_vol_target :: real

text \<open>The values that reach a cache slot or leave an accessor.\<close>

datatype pyobj =
    Dict vol_target_dict
  | Frame dataframe
  | Num real
  | Tuple pyobj pyobj

datatype error =
    KeyError
  | AttributeError
  | TypeError
  | ZeroDivisionError
  | DataError string

text \<open>
  \<^verbatim>\<open>system_defaults\<close> of \<^verbatim>\<open>systems.defaults\<close>, \<^verbatim>\<open>ALL_KEYNAME\<close> of \<^verbatim>\<open>syscore.objects\<close> and
  the day count behind \<^verbatim>\<open>ROOT_BDAYS_INYEAR\<close> of \<^verbatim>\<open>syscore.dateutils\<close> are module
  constants whose modules are not among the sources: every function takes them as the
  parameter \<open>G\<close>.
\<close>

record defaults =
  default_percentage_vol_target :: real
  default_notional_trading_capital :: real
  default_base_currency :: string
  default_average_absolute_forecast :: real

record globals =
  system_defaults :: defaults
  ALL_KEYNAME :: string
  BUSINESS_DAYS_IN_YEAR :: real

text \<open>
  Modelled from the spec: \<^verbatim>\<open>ROOT_BDAYS_INYEAR\<close> is not among the sources; the spec (4.2)
  divides by the square root of the business days per year.
\<close>

definition ROOT_BDAYS_INYEAR :: "globals \<Rightarrow> real" where
  "ROOT_BDAYS_INYEAR G = sqrt (BUSINESS_DAYS_IN_YEAR G)"

text \<open>
  \<^verbatim>\<open>system.config.parameters\<close>: the dictionary of configured values (\<open>None\<close> for an
  absent key), typed as the constructor's docstring types them. The dictionary may hold
  more keys than the three the stage reads; \<^verbatim>\<open>average_absolute_forecast\<close> stands for
  those.
\<close>

record parameters =
  cfg_percentage_vol_target :: "real option"
  cfg_notional_trading_capital :: "real option"
  cfg_base_currency :: "string option"
  cfg_average_absolute_forecast :: "real option"

text \<open>The stage object: what \<^verbatim>\<open>PositionSizing.__init__\<close> sets on \<^verbatim>\<open>self\<close>.\<close>

record PositionSizing =
  delete_on_recalc :: "string list"
  dont_recalc :: "string list"
  name :: string
  passed_percentage_vol_target :: "real option"
  passed_notional_trading_capital :: "real option"
  passed_base_currency :: "string option"

definition PositionSizing_init ::
    "real option \<Rightarrow> real option \<Rightarrow> string option \<Rightarrow> PositionSizing" where
  "PositionSizing_init percentage_vol_target_arg notional_trading_capital_arg base_currency_arg =
     \<lparr>delete_on_recalc = [''_block_value'', ''_instrument_currency_vol'', ''_instrument_value_vol'',
                          ''_vol_scalar'', ''_subsys_position'', ''_fx_rate''],
      dont_recalc = [''_vol_target''],
      name = ''positionSize'',
      passed_percentage_vol_target = percentage_vol_target_arg,
      passed_notional_trading_capital = notional_trading_capital_arg,
      passed_base_currency = base_currency_arg\<rparr>"

text \<open>
  The parent system (\<^verbatim>\<open>self.parent\<close>). It owns the cache store, addressed by
  (attribute name, key), and the stage registry. \<open>config\<close> is what evaluating
  \<^verbatim>\<open>system.config.parameters\<close> gives: the dictionary, or the exception raised. The
  sibling stages and the data object are outside the sources; following the spec (1) they
  are pure functions of the instrument code that return a value or raise.
  \<open>compute_log\<close> is an observer and no function reads it: the resolver appends the slot
  to it each time it invokes a compute function (the counting stub of the spec, 8).
\<close>

record system =
  cache :: "string \<times> string \<Rightarrow> pyobj option"
  compute_log :: "(string \<times> string) list"
  stages :: "string \<Rightarrow> PositionSizing option"
  config :: "error + parameters"
  combForecast_get_combined_forecast :: "string \<Rightarrow> error + dataframe"
  rawdata_get_daily_percentage_volatility :: "string \<Rightarrow> error + dataframe"
  rawdata_daily_denominator_price :: "string \<Rightarrow> error + dataframe"
  data_get_value_of_block_price_move :: "string \<Rightarrow> error + real"
  data_get_fx_for_currency :: "string \<Rightarrow> string \<Rightarrow> error + dataframe"

text \<open>
  A method run against the parent: it returns a value or raises, and leaves the parent
  in a new state either way (an exception does not undo the writes made before it).
\<close>

type_synonym 'a action = "system \<Rightarrow> (error + 'a) \<times> system"

definition returnE :: "'a \<Rightarrow> 'a action" where
  "returnE v = (\<lambda>s. (Inr v, s))"

definition liftE :: "(system \<Rightarrow> error + 'a) \<Rightarrow> 'a action" where
  "liftE g = (\<lambda>s. (g s, s))"

definition bindE :: "'a action \<Rightarrow> ('a \<Rightarrow> 'b action) \<Rightarrow> 'b action" where
  "bindE m f = (\<lambda>s. case m s of (Inl e, s') \<Rightarrow> (Inl e, s') | (Inr v, s') \<Rightarrow> f v s')"

text \<open>Using a cached object as a frame or as the target dictionary; another shape raises.\<close>

definition as_frame :: "pyobj \<Rightarrow> error + dataframe" where
  "as_frame v = (case v of Frame df \<Rightarrow> Inr df | _ \<Rightarrow> Inl TypeError)"

definition as_dict :: "pyobj \<Rightarrow> error + vol_target_dict" where
  "as_dict v = (case v of Dict d \<Rightarrow> Inr d | _ \<Rightarrow> Inl TypeError)"

text \<open>\<^verbatim>\<open>system.config.parameters[key]\<close>, for the key read by \<open>field\<close>.\<close>

definition config_parameters :: "(parameters \<Rightarrow> 'a option) \<Rightarrow> system \<Rightarrow> error + 'a" where
  "config_parameters field system =
     (case config system of
        Inl e \<Rightarrow> Inl e
      | Inr p \<Rightarrow> (case field p of None \<Rightarrow> Inl KeyError | Some v \<Rightarrow> Inr v))"

subsection \<open>The resolver and the invalidation policy\<close>

text \<open>
  Modelled from the spec: \<^verbatim>\<open>calc_or_cache\<close> of \<^verbatim>\<open>syscore.objects\<close> is not among the
  sources. The spec (4.1) has it look up (attribute name, key) in the parent's cache
  store; return the stored value unchanged on a hit; on a miss invoke the compute
  function once with the parent, the key and the stage, store the result under
  (attribute name, key) and return it; and store nothing when the compute function fails,
  the failure going to the caller.
\<close>

definition calc_or_cache ::
    "string \<Rightarrow> string \<Rightarrow> (string \<Rightarrow> 'st \<Rightarrow> pyobj action) \<Rightarrow> 'st \<Rightarrow> pyobj action" where
  "calc_or_cache attrname keyname func this_subsystem parent =
     (case cache parent (attrname, keyname) of
        Some v \<Rightarrow> (Inr v, parent)
      | None \<Rightarrow>
          (case func keyname this_subsystem
                  (parent\<lparr>compute_log := compute_log parent @ [(attrname, keyname)]\<rparr>) of
             (Inl e, parent') \<Rightarrow> (Inl e, parent')
           | (Inr v, parent') \<Rightarrow>
               (Inr v, parent'\<lparr>cache := (cache parent')((attrname, keyname) \<mapsto> v)\<rparr>)))"

text \<open>
  Modelled from the spec: \<^verbatim>\<open>invalidate_stage\<close> belongs to the parent system, which is
  not among the sources. The spec (4.4) has it clear every cache entry whose attribute
  is in the volatile list of the named stage, for all keys, and leave the other entries
  alone; an unregistered stage name fails at once (7).
\<close>

definition invalidate_stage :: "string \<Rightarrow> unit action" where
  "invalidate_stage stage_name parent =
     (case stages parent stage_name of
        None \<Rightarrow> (Inl KeyError, parent)
      | Some stage \<Rightarrow>
          (Inr (),
           parent\<lparr>cache := (\<lambda>(attrname, keyname).
              if attrname \<in> set (delete_on_recalc stage) then None
              else cache parent (attrname, keyname))\<rparr>))"

subsection \<open>The stage's accessors\<close>

text \<open>The three key inputs: each hands the request to a sibling stage or to the data.\<close>

definition get_combined_forecast :: "PositionSizing \<Rightarrow> string \<Rightarrow> dataframe action" where
  "get_combined_forecast self instrument_code =
     liftE (\<lambda>parent. combForecast_get_combined_forecast parent instrument_code)"

definition get_price_volatility :: "PositionSizing \<Rightarrow> string \<Rightarrow> dataframe action" where
  "get_price_volatility self instrument_code =
     bindE (liftE (\<lambda>parent. rawdata_get_daily_percentage_volatility parent instrument_code))
       (\<lambda>daily_perc_vol. returnE daily_perc_vol)"

definition get_instrument_sizing_data ::
    "PositionSizing \<Rightarrow> string \<Rightarrow> (dataframe \<times> real) action" where
  "get_instrument_sizing_data self instrument_code =
     bindE (liftE (\<lambda>parent. rawdata_daily_denominator_price parent instrument_code))
       (\<lambda>underlying_price.
     bindE (liftE (\<lambda>parent. data_get_value_of_block_price_move parent instrument_code))
       (\<lambda>value_of_price_move.
     returnE (underlying_price, value_of_price_move)))"

text \<open>
  \<^verbatim>\<open>_get_vol_target\<close>. A bare \<^verbatim>\<open>except:\<close> guards each read of the configuration, so
  whatever the read raises, the default is taken. The division of two floats raises on
  a zero divisor.
\<close>

definition get_vol_target :: "globals \<Rightarrow> string \<Rightarrow> PositionSizing \<Rightarrow> pyobj action" where
  "get_vol_target G an_ignored_variable this_subsystem system =
     (let percentage_vol_target_v =
            (case passed_percentage_vol_target this_subsystem of
               Some v \<Rightarrow> v
             | None \<Rightarrow>
                 (case config_parameters cfg_percentage_vol_target system of
                    Inr v \<Rightarrow> v
                  | Inl e \<Rightarrow> default_percentage_vol_target (system_defaults G)));
          notional_trading_capital_v =
            (case passed_notional_trading_capital this_subsystem of
               Some v \<Rightarrow> v
             | None \<Rightarrow>
                 (case config_parameters cfg_notional_trading_capital system of
                    Inr v \<Rightarrow> v
                  | Inl e \<Rightarrow> default_notional_trading_capital (system_defaults G)));
          base_currency_v =
            (case passed_base_currency this_subsystem of
               Some v \<Rightarrow> v
             | None \<Rightarrow>
                 (case config_parameters cfg_base_currency system of
                    Inr v \<Rightarrow> v
                  | Inl e \<Rightarrow> default_base_currency (system_defaults G)));
          annual_cash_vol_target_v = notional_trading_capital_v * percentage_vol_target_v / 100
      in if ROOT_BDAYS_INYEAR G = 0 then (Inl ZeroDivisionError, system)
         else (Inr (Dict \<lparr>base_currency = base_currency_v,
                          percentage_vol_target = percentage_vol_target_v,
                          notional_trading_capital = notional_trading_capital_v,
                          annual_cash_vol_target = annual_cash_vol_target_v,
                          daily_cash_vol_target = annual_cash_vol_target_v / ROOT_BDAYS_INYEAR G\<rparr>),
               system))"

definition get_daily_cash_vol_target :: "globals \<Rightarrow> PositionSizing \<Rightarrow> pyobj action" where
  "get_daily_cash_vol_target G self =
     calc_or_cache ''_vol_target'' (ALL_KEYNAME G) (get_vol_target G) self"

text \<open>
  The local closures \<^verbatim>\<open>_get_fx_rate\<close>, \<^verbatim>\<open>_get_block_value\<close>, ... are named
  \<open>local_get_fx_rate\<close>, \<open>local_get_block_value\<close>, ... here. A value fetched through an
  accessor is whatever object the cache holds; it is read as a dictionary or a frame at
  the point where the source uses it.
\<close>

definition local_get_fx_rate :: "globals \<Rightarrow> string \<Rightarrow> PositionSizing \<Rightarrow> pyobj action" where
  "local_get_fx_rate G instrument_code this_subsystem =
     bindE (get_daily_cash_vol_target G this_subsystem) (\<lambda>vol_target.
     bindE (liftE (\<lambda>system. as_dict vol_target)) (\<lambda>d.
     bindE (liftE (\<lambda>system. data_get_fx_for_currency system instrument_code (base_currency d)))
       (\<lambda>fx_rate.
     returnE (Frame fx_rate))))"

definition get_fx_rate :: "globals \<Rightarrow> PositionSizing \<Rightarrow> string \<Rightarrow> pyobj action" where
  "get_fx_rate G self instrument_code =
     calc_or_cache ''_fx_rate'' instrument_code (local_get_fx_rate G) self"

definition local_get_block_value :: "globals \<Rightarrow> string \<Rightarrow> PositionSizing \<Rightarrow> pyobj action" where
  "local_get_block_value G instrument_code this_subsystem =
     bindE (get_instrument_sizing_data this_subsystem instrument_code)
       (\<lambda>(underlying_price, value_of_price_move).
     returnE (Frame (df_times_scalar (scalar_times_df (1 / 100) underlying_price)
                       value_of_price_move)))"

definition get_block_value :: "globals \<Rightarrow> PositionSizing \<Rightarrow> string \<Rightarrow> pyobj action" where
  "get_block_value G self instrument_code =
     calc_or_cache ''_block_value'' instrument_code (local_get_block_value G) self"

definition local_get_instrument_currency_vol ::
    "globals \<Rightarrow> string \<Rightarrow> PositionSizing \<Rightarrow> pyobj action" where
  "local_get_instrument_currency_vol G instrument_code this_subsystem =
     bindE (get_block_value G this_subsystem instrument_code) (\<lambda>block_value.
     bindE (get_price_volatility this_subsystem instrument_code) (\<lambda>daily_perc_vol.
     bindE (liftE (\<lambda>system. as_frame block_value)) (\<lambda>block_value.
     returnE (Frame ((multiply_df_single_column block_value daily_perc_vol (True, False))
                       \<lparr>columns := [''icv'']\<rparr>)))))"

definition get_instrument_currency_vol ::
    "globals \<Rightarrow> PositionSizing \<Rightarrow> string \<Rightarrow> pyobj action" where
  "get_instrument_currency_vol G self instrument_code =
     calc_or_cache ''_instrument_currency_vol'' instrument_code
       (local_get_instrument_currency_vol G) self"

definition local_get_instrument_value_vol ::
    "globals \<Rightarrow> string \<Rightarrow> PositionSizing \<Rightarrow> pyobj action" where
  "local_get_instrument_value_vol G instrument_code this_subsystem =
     bindE (get_instrument_currency_vol G this_subsystem instrument_code) (\<lambda>instr_ccy_vol.
     bindE (get_fx_rate G this_subsystem instrument_code) (\<lambda>fx_rate.
     bindE (liftE (\<lambda>system. as_frame instr_ccy_vol)) (\<lambda>instr_ccy_vol.
     bindE (liftE (\<lambda>system. as_frame fx_rate)) (\<lambda>fx_rate.
     returnE (Frame ((multiply_df_single_column instr_ccy_vol fx_rate (False, True))
                       \<lparr>columns := [''ivv'']\<rparr>))))))"

definition get_instrument_value_vol ::
    "globals \<Rightarrow> PositionSizing \<Rightarrow> string \<Rightarrow> pyobj action" where
  "get_instrument_value_vol G self instrument_code =
     calc_or_cache ''_instrument_value_vol'' instrument_code
       (local_get_instrument_value_vol G) self"

definition local_get_volatility_scalar ::
    "globals \<Rightarrow> string \<Rightarrow> PositionSizing \<Rightarrow> pyobj action" where
  "local_get_volatility_scalar G instrument_code this_subsystem =
     bindE (get_instrument_value_vol G this_subsystem instrument_code) (\<lambda>instr_value_vol.
     bindE (get_daily_cash_vol_target G this_subsystem) (\<lambda>vol_target.
     bindE (liftE (\<lambda>system. as_dict vol_target)) (\<lambda>d.
     bindE (liftE (\<lambda>system. as_frame instr_value_vol)) (\<lambda>instr_value_vol.
     returnE (Frame ((scalar_div_df (daily_cash_vol_target d) instr_value_vol)
                       \<lparr>columns := [''vol_scalar'']\<rparr>))))))"

definition get_volatility_scalar :: "globals \<Rightarrow> PositionSizing \<Rightarrow> string \<Rightarrow> pyobj action" where
  "get_volatility_scalar G self instrument_code =
     calc_or_cache ''_vol_scalar'' instrument_code (local_get_volatility_scalar G) self"

definition local_get_subsys_position ::
    "globals \<Rightarrow> string \<Rightarrow> PositionSizing \<Rightarrow> pyobj action" where
  "local_get_subsys_position G instrument_code this_subsystem =
     (let avg_abs_forecast = default_average_absolute_forecast (system_defaults G) in
      bindE (get_volatility_scalar G this_subsystem instrument_code) (\<lambda>vol_scalar.
      bindE (get_combined_forecast this_subsystem instrument_code) (\<lambda>forecast.
      bindE (liftE (\<lambda>system. as_frame vol_scalar)) (\<lambda>vol_scalar.
      returnE (Frame ((df_div_scalar
                         (multiply_df_single_column vol_scalar forecast (True, False))
                         avg_abs_forecast)
                        \<lparr>columns := [''ss_position'']\<rparr>))))))"

definition get_subsys_position :: "globals \<Rightarrow> PositionSizing \<Rightarrow> string \<Rightarrow> pyobj action" where
  "get_subsys_position G self instrument_code =
     calc_or_cache ''_subsys_position'' instrument_code (local_get_subsys_position G) self"

text \<open>
  The public accessors by name, and a call of one of them with its result as an object
  (\<^verbatim>\<open>get_daily_cash_vol_target\<close> takes no instrument code).
\<close>

datatype accessor =
    Get_combined_forecast
  | Get_price_volatility
  | Get_instrument_sizing_data
  | Get_daily_cash_vol_target
  | Get_fx_rate
  | Get_block_value
  | Get_instrument_currency_vol
  | Get_instrument_value_vol
  | Get_volatility_scalar
  | Get_subsys_position

fun call :: "globals \<Rightarrow> PositionSizing \<Rightarrow> accessor \<Rightarrow> string \<Rightarrow> pyobj action" where
  "call G self Get_combined_forecast instrument_code =
     bindE (get_combined_forecast self instrument_code) (\<lambda>df. returnE (Frame df))"
| "call G self Get_price_volatility instrument_code =
     bindE (get_price_volatility self instrument_code) (\<lambda>df. returnE (Frame df))"
| "call G self Get_instrument_sizing_data instrument_code =
     bindE (get_instrument_sizing_data self instrument_code)
       (\<lambda>(underlying_price, value_of_price_move).
          returnE (Tuple (Frame underlying_price) (Num value_of_price_move)))"
| "call G self Get_daily_cash_vol_target instrument_code = get_daily_cash_vol_target G self"
| "call G self Get_fx_rate instrument_code = get_fx_rate G self instrument_code"
| "call G self Get_block_value instrument_code = get_block_value G self instrument_code"
| "call G self Get_instrument_currency_vol instrument_code =
     get_instrument_currency_vol G self instrument_code"
| "call G self Get_instrument_value_vol instrument_code =
     get_instrument_value_vol G self instrument_code"
| "call G self Get_volatility_scalar instrument_code =
     get_volatility_scalar G self instrument_code"
| "call G self Get_subsys_position instrument_code =
     get_subsys_position G self instrument_code"

text \<open>A run of accessor calls, one after the other, whatever each returns or raises.\<close>

fun run_calls ::
    "globals \<Rightarrow> PositionSizing \<Rightarrow> (accessor \<times> string) list \<Rightarrow> system \<Rightarrow> system" where
  "run_calls G self [] parent = parent"
| "run_calls G self ((a, instrument_code) # cs) parent =
     run_calls G self cs (snd (call G self a instrument_code parent))"

text \<open>
  The attribute name and the key that each accessor hands to \<^verbatim>\<open>calc_or_cache\<close>; the three
  key inputs hand it none.
\<close>

fun cache_attribute :: "accessor \<Rightarrow> string option" where
  "cache_attribute Get_combined_forecast = None"
| "cache_attribute Get_price_volatility = None"
| "cache_attribute Get_instrument_sizing_data = None"
| "cache_attribute Get_daily_cash_vol_target = Some ''_vol_target''"
| "cache_attribute Get_fx_rate = Some ''_fx_rate''"
| "cache_attribute Get_block_value = Some ''_block_value''"
| "cache_attribute Get_instrument_currency_vol = Some ''_instrument_currency_vol''"
| "cache_attribute Get_instrument_value_vol = Some ''_instrument_value_vol''"
| "cache_attribute Get_volatility_scalar = Some ''_vol_scalar''"
| "cache_attribute Get_subsys_position = Some ''_subsys_position''"

text \<open>The local closure that each accessor hands to \<^verbatim>\<open>calc_or_cache\<close>.\<close>

fun compute_fn ::
    "globals \<Rightarrow> accessor \<Rightarrow> (string \<Rightarrow> PositionSizing \<Rightarrow> pyobj action) option" where
  "compute_fn G Get_combined_forecast = None"
| "compute_fn G Get_price_volatility = None"
| "compute_fn G Get_instrument_sizing_data = None"
| "compute_fn G Get_daily_cash_vol_target = Some (get_vol_target G)"
| "compute_fn G Get_fx_rate = Some (local_get_fx_rate G)"
| "compute_fn G Get_block_value = Some (local_get_block_value G)"
| "compute_fn G Get_instrument_currency_vol = Some (local_get_instrument_currency_vol G)"
| "compute_fn G Get_instrument_value_vol = Some (local_get_instrument_value_vol G)"
| "compute_fn G Get_volatility_scalar = Some (local_get_volatility_scalar G)"
| "compute_fn G Get_subsys_position = Some (local_get_subsys_position G)"

definition cache_key :: "globals \<Rightarrow> accessor \<Rightarrow> string \<Rightarrow> string" where
  "cache_key G a instrument_code =
     (if a = Get_daily_cash_vol_target then ALL_KEYNAME G else instrument_code)"


text \<open>
  The three-tier fallback as the spec words it (4.2): the explicit override, else the
  configured value, else the compiled default.
\<close>

definition three_tier :: "'a option \<Rightarrow> error + 'a \<Rightarrow> 'a \<Rightarrow> 'a" where
  "three_tier override configured compiled_default =
     (case override of
        Some v \<Rightarrow> v
      | None \<Rightarrow> (case configured of Inr v \<Rightarrow> v | Inl e \<Rightarrow> compiled_default))"

text \<open>
  The two pairings of the spec (4.2), on the rows of two series: align them, forward-fill
  the first operand only (or the second only), and multiply cell by cell.
\<close>

definition multiply_filling_first ::
    "(nat \<times> cell) list \<Rightarrow> (nat \<times> cell) list \<Rightarrow> (nat \<times> cell) list" where
  "multiply_filling_first xs ys =
     (let aligned = align xs ys
      in zip (map fst aligned)
           (map (\<lambda>(x, y). cell_mult x y)
              (zip (ffill (map (\<lambda>(d, x, y). x) aligned)) (map (\<lambda>(d, x, y). y) aligned))))"

definition multiply_filling_second ::
    "(nat \<times> cell) list \<Rightarrow> (nat \<times> cell) list \<Rightarrow> (nat \<times> cell) list" where
  "multiply_filling_second xs ys =
     (let aligned = align xs ys
      in zip (map fst aligned)
           (map (\<lambda>(x, y). cell_mult x y)
              (zip (map (\<lambda>(d, x, y). x) aligned) (ffill (map (\<lambda>(d, x, y). y) aligned)))))"

text \<open>How often the compute function of a slot has been invoked so far.\<close>

definition invocations :: "system \<Rightarrow> string \<times> string \<Rightarrow> nat" where
  "invocations parent slot = count_list (compute_log parent) slot"

text \<open>
  The number of accesses of a run during which the compute function of a slot was invoked
  and raised: it was invoked, and the slot, which the resolver fills as soon as the
  compute function returns, is empty after the access.
\<close>

fun raised_attempts ::
    "globals \<Rightarrow> PositionSizing \<Rightarrow> (accessor \<times> string) list \<Rightarrow> system \<Rightarrow>
     string \<times> string \<Rightarrow> nat" where
  "raised_attempts G self [] parent slot = 0"
| "raised_attempts G self ((a, instrument_code) # cs) parent slot =
     (let parent' = snd (call G self a instrument_code parent)
      in (if invocations parent slot < invocations parent' slot \<and> cache parent' slot = None
          then 1 else 0)
         + raised_attempts G self cs parent' slot)"

subsection \<open>Relations between the states before and after a method\<close>

text \<open>
  \<open>static_eq\<close>: the registry, the configuration and the collaborators are the same.
  \<open>slot_ok r s s' x\<close>, for a method that took \<open>s\<close> to \<open>s'\<close> with result \<open>r\<close>: a value
  stored in slot \<open>x\<close> is still there and its compute function was not invoked; the
  compute function of \<open>x\<close> was invoked at most once; and if the method returned and the
  compute function of \<open>x\<close> was invoked, slot \<open>x\<close> now holds a value; and an empty
  slot \<open>x\<close> whose compute function was not invoked is still empty.
  \<open>step_ok\<close> asks this of every slot, together with \<open>static_eq\<close>, and \<open>ok m\<close> asks
  \<open>step_ok\<close> of every run of the method \<open>m\<close>.
  \<open>avoids x m\<close>: the method \<open>m\<close> never touches slot \<open>x\<close>.
  These predicates serve the proofs only; no accessor uses them.
\<close>

definition static_eq :: "system \<Rightarrow> system \<Rightarrow> bool" where
  "static_eq s s' \<longleftrightarrow>
     stages s' = stages s \<and> config s' = config s \<and>
     combForecast_get_combined_forecast s' = combForecast_get_combined_forecast s \<and>
     rawdata_get_daily_percentage_volatility s' = rawdata_get_daily_percentage_volatility s \<and>
     rawdata_daily_denominator_price s' = rawdata_daily_denominator_price s \<and>
     data_get_value_of_block_price_move s' = data_get_value_of_block_price_move s \<and>
     data_get_fx_for_currency s' = data_get_fx_for_currency s"

definition slot_ok :: "error + 'a \<Rightarrow> system \<Rightarrow> system \<Rightarrow> string \<times> string \<Rightarrow> bool" where
  "slot_ok r s s' x \<longleftrightarrow>
     (cache s x \<noteq> None \<longrightarrow> cache s' x = cache s x \<and> invocations s' x = invocations s x) \<and>
     invocations s x \<le> invocations s' x \<and>
     invocations s' x \<le> invocations s x + 1 \<and>
     (isl r \<or> invocations s' x = invocations s x \<or> cache s' x \<noteq> None) \<and>
     (cache s x = None \<and> invocations s' x = invocations s x \<longrightarrow> cache s' x = None)"

definition step_ok :: "error + 'a \<Rightarrow> system \<Rightarrow> system \<Rightarrow> bool" where
  "step_ok r s s' \<longleftrightarrow> static_eq s s' \<and> (\<forall>x. slot_ok r s s' x)"

definition ok :: "'a action \<Rightarrow> bool" where
  "ok m \<longleftrightarrow> (\<forall>s. step_ok (fst (m s)) s (snd (m s)))"

definition avoids :: "string \<times> string \<Rightarrow> 'a action \<Rightarrow> bool" where
  "avoids x m \<longleftrightarrow> (\<forall>s. cache (snd (m s)) x = cache s x \<and> invocations (snd (m s)) x = invocations s x)"

subsection \<open>A system to run the accessors on\<close>

definition example_globals :: globals where
  "example_globals =
     \<lparr>system_defaults =
        \<lparr>default_percentage_vol_target = 16,
         default_notional_trading_capital = 1000000,
         default_base_currency = ''USD'',
         default_average_absolute_forecast = 10\<rparr>,
      ALL_KEYNAME = ''all'',
      BUSINESS_DAYS_IN_YEAR = 256\<rparr>"

definition example_stage :: PositionSizing where
  "example_stage = PositionSizing_init None None None"

text \<open>
  EDOLLAR carries the series of the spec's alignment law, BUND those of its end-to-end
  scenario (an instrument value volatility of 5.97 and a forecast of 7.62); no other
  instrument has data.
\<close>

definition example_system :: system where
  "example_system =
     \<lparr>cache = (\<lambda>slot. None),
      compute_log = [],
      stages = (\<lambda>n. if n = ''positionSize'' then Some example_stage else None),
      config = Inr \<lparr>cfg_percentage_vol_target = Some 10,
                    cfg_notional_trading_capital = Some 1000000,
                    cfg_base_currency = Some ''GBP'',
                    cfg_average_absolute_forecast = Some 20\<rparr>,
      combForecast_get_combined_forecast =
        (\<lambda>i. if i = ''BUND'' then Inr \<lparr>columns = [''comb_forecast''], rows = [(1, Val (762 / 100))]\<rparr>
             else Inl (DataError i)),
      rawdata_get_daily_percentage_volatility =
        (\<lambda>i. if i = ''EDOLLAR''
               then Inr \<lparr>columns = [''vol''], rows = [(1, Val (1 / 100)), (2, Val (2 / 100))]\<rparr>
             else if i = ''BUND'' then Inr \<lparr>columns = [''vol''], rows = [(1, Val (597 / 10000))]\<rparr>
             else Inl (DataError i)),
      rawdata_daily_denominator_price =
        (\<lambda>i. if i = ''EDOLLAR'' then Inr \<lparr>columns = [''price''], rows = [(1, Val 100), (2, NaN)]\<rparr>
             else if i = ''BUND'' then Inr \<lparr>columns = [''price''], rows = [(1, Val 100)]\<rparr>
             else Inl (DataError i)),
      data_get_value_of_block_price_move =
        (\<lambda>i. if i = ''EDOLLAR'' \<or> i = ''BUND'' then Inr 100 else Inl (DataError i)),
      data_get_fx_for_currency =
        (\<lambda>i c. if i = ''EDOLLAR'' \<or> i = ''BUND''
               then Inr \<lparr>columns = [''fx''], rows = [(1, Val 1)]\<rparr>
               else Inl (DataError i))\<rparr>"

section \<open>Properties\<close>

subsection \<open>What a method keeps: stored values and invocation counts\<close>

lemma static_eq_refl: "static_eq s s"
  by (simp add: static_eq_def)

lemma static_eq_trans: "static_eq s s1 \<Longrightarrow> static_eq s1 s2 \<Longrightarrow> static_eq s s2"
  by (simp add: static_eq_def)

lemma step_ok_refl: "step_ok r s s"
  by (simp add: step_ok_def slot_ok_def static_eq_refl)

lemma ok_returnE: "ok (returnE v)"
  by (simp add: ok_def returnE_def step_ok_refl)

lemma ok_liftE: "ok (liftE g)"
  by (simp add: ok_def liftE_def step_ok_refl)

lemma slot_ok_seq:
  assumes a: "slot_ok (Inr v :: error + 'a) s s1 x" and b: "slot_ok (r :: error + 'b) s1 s2 x"
  shows "slot_ok r s s2 x"
  using a b unfolding slot_ok_def by auto

lemma step_ok_seq:
  assumes a: "step_ok (Inr v :: error + 'a) s s1" and b: "step_ok (r :: error + 'b) s1 s2"
  shows "step_ok r s s2"
proof -
  have "static_eq s s2"
    using a b static_eq_trans unfolding step_ok_def by blast
  moreover have "slot_ok r s s2 x" for x
  proof -
    have "slot_ok (Inr v :: error + 'a) s s1 x" using a unfolding step_ok_def by blast
    moreover have "slot_ok r s1 s2 x" using b unfolding step_ok_def by blast
    ultimately show ?thesis by (rule slot_ok_seq)
  qed
  ultimately show ?thesis unfolding step_ok_def by simp
qed

lemma step_ok_Inl: "step_ok r s s1 \<Longrightarrow> step_ok (Inl e) s s1"
  by (simp add: step_ok_def slot_ok_def)

lemma ok_bindE:
  assumes m: "ok m" and f: "\<And>v. ok (f v)"
  shows "ok (bindE m f)"
  unfolding ok_def
proof
  fix s
  obtain r s1 where ms: "m s = (r, s1)" by (cases "m s")
  have "step_ok (fst (m s)) s (snd (m s))" using m unfolding ok_def by simp
  then have st1: "step_ok r s s1" by (simp add: ms)
  show "step_ok (fst (bindE m f s)) s (snd (bindE m f s))"
  proof (cases r)
    case (Inl e)
    then have "bindE m f s = (Inl e, s1)" by (simp add: bindE_def ms)
    then show ?thesis using step_ok_Inl [OF st1] by simp
  next
    case (Inr v)
    then have eq: "bindE m f s = f v s1" by (simp add: bindE_def ms)
    have "step_ok (Inr v :: error + 'a) s s1" using st1 Inr by simp
    moreover have "step_ok (fst (f v s1)) s1 (snd (f v s1))" using f [of v] unfolding ok_def by simp
    ultimately have "step_ok (fst (f v s1)) s (snd (f v s1))" by (rule step_ok_seq)
    then show ?thesis by (simp add: eq)
  qed
qed

lemma avoids_returnE: "avoids x (returnE v)"
  by (simp add: avoids_def returnE_def)

lemma avoids_liftE: "avoids x (liftE g)"
  by (simp add: avoids_def liftE_def)

lemma avoids_bindE:
  assumes "avoids x m" and "\<And>v. avoids x (f v)"
  shows "avoids x (bindE m f)"
  unfolding avoids_def
proof
  fix s
  obtain r s1 where ms: "m s = (r, s1)" by (cases "m s")
  have "cache (snd (m s)) x = cache s x \<and> invocations (snd (m s)) x = invocations s x"
    using assms(1) unfolding avoids_def by simp
  then have s1: "cache s1 x = cache s x \<and> invocations s1 x = invocations s x"
    by (simp add: ms)
  show "cache (snd (bindE m f s)) x = cache s x \<and>
        invocations (snd (bindE m f s)) x = invocations s x"
  proof (cases r)
    case (Inl e)
    then show ?thesis using s1 by (simp add: bindE_def ms)
  next
    case (Inr v)
    then have "bindE m f s = f v s1" by (simp add: bindE_def ms)
    then show ?thesis using assms(2) [of v] s1 unfolding avoids_def by simp
  qed
qed

lemma invocations_log_other:
  "x \<noteq> y \<Longrightarrow> invocations (s\<lparr>compute_log := compute_log s @ [y]\<rparr>) x = invocations s x"
  by (simp add: invocations_def)

lemma invocations_log_same:
  "invocations (s\<lparr>compute_log := compute_log s @ [x]\<rparr>) x = invocations s x + 1"
  by (simp add: invocations_def)

lemma invocations_cache_upd: "invocations (s\<lparr>cache := c\<rparr>) x = invocations s x"
  by (simp add: invocations_def)

lemma avoids_calc_or_cache:
  assumes ne: "x \<noteq> (a, k)" and f: "avoids x (f k st)"
  shows "avoids x (calc_or_cache a k f st)"
  unfolding avoids_def
proof
  fix s :: system
  let ?s0 = "s\<lparr>compute_log := compute_log s @ [(a, k)]\<rparr>"
  have f0: "cache (snd (f k st ?s0)) x = cache s x \<and> invocations (snd (f k st ?s0)) x = invocations s x"
    using f ne unfolding avoids_def by (simp add: invocations_log_other)
  show "cache (snd (calc_or_cache a k f st s)) x = cache s x \<and>
        invocations (snd (calc_or_cache a k f st s)) x = invocations s x"
    using f0 ne
    by (auto simp: calc_or_cache_def invocations_cache_upd split: option.splits prod.splits sum.splits)
qed

lemma slot_ok_miss_Inl:
  fixes s :: system
  assumes none: "cache s (a, k) = None"
    and st: "slot_ok r (s\<lparr>compute_log := compute_log s @ [(a, k)]\<rparr>) s1 x"
    and av: "cache s1 (a, k) = None" "invocations s1 (a, k) = invocations s (a, k) + 1"
  shows "slot_ok (Inl e :: error + pyobj) s s1 x"
proof (cases "x = (a, k)")
  case True
  then show ?thesis using none av by (simp add: slot_ok_def)
next
  case False
  then show ?thesis using st by (simp add: slot_ok_def invocations_log_other)
qed

lemma slot_ok_miss_Inr:
  fixes s :: system
  assumes none: "cache s (a, k) = None"
    and st: "slot_ok (Inr v :: error + pyobj) (s\<lparr>compute_log := compute_log s @ [(a, k)]\<rparr>) s1 x"
    and av: "cache s1 (a, k) = None" "invocations s1 (a, k) = invocations s (a, k) + 1"
  shows "slot_ok (Inr v :: error + pyobj) s (s1\<lparr>cache := (cache s1)((a, k) \<mapsto> v)\<rparr>) x"
proof (cases "x = (a, k)")
  case True
  then show ?thesis using none av by (simp add: slot_ok_def invocations_cache_upd)
next
  case False
  then show ?thesis using st
    by (simp add: slot_ok_def invocations_log_other invocations_cache_upd)
qed

lemma ok_calc_or_cache:
  assumes f: "ok (f k st)" and av: "avoids (a, k) (f k st)"
  shows "ok (calc_or_cache a k f st)"
  unfolding ok_def
proof
  fix s :: system
  show "step_ok (fst (calc_or_cache a k f st s)) s (snd (calc_or_cache a k f st s))"
  proof (cases "cache s (a, k)")
    case (Some v)
    then show ?thesis by (simp add: calc_or_cache_def step_ok_refl)
  next
    case None
    let ?s0 = "s\<lparr>compute_log := compute_log s @ [(a, k)]\<rparr>"
    obtain r s1 where fs: "f k st ?s0 = (r, s1)" by (cases "f k st ?s0")
    have "step_ok (fst (f k st ?s0)) ?s0 (snd (f k st ?s0))"
      using f unfolding ok_def by simp
    then have st: "step_ok r ?s0 s1" by (simp add: fs)
    have "cache (snd (f k st ?s0)) (a, k) = cache ?s0 (a, k) \<and>
          invocations (snd (f k st ?s0)) (a, k) = invocations ?s0 (a, k)"
      using av unfolding avoids_def by simp
    then have avs: "cache s1 (a, k) = None" "invocations s1 (a, k) = invocations s (a, k) + 1"
      by (simp_all add: fs None invocations_log_same)
    have stat: "static_eq s s1" using st unfolding step_ok_def static_eq_def by simp
    show ?thesis
    proof (cases r)
      case (Inl e)
      then have eq: "calc_or_cache a k f st s = (Inl e, s1)"
        by (simp add: calc_or_cache_def None fs)
      have "slot_ok (Inl e :: error + pyobj) s s1 x" for x
      proof -
        have "slot_ok r ?s0 s1 x" using st unfolding step_ok_def by blast
        then show ?thesis using avs by (rule slot_ok_miss_Inl [OF None])
      qed
      then have "step_ok (Inl e :: error + pyobj) s s1"
        using stat unfolding step_ok_def by simp
      then show ?thesis using eq by simp
    next
      case (Inr v)
      let ?s2 = "s1\<lparr>cache := (cache s1)((a, k) \<mapsto> v)\<rparr>"
      from Inr have eq: "calc_or_cache a k f st s = (Inr v, ?s2)"
        by (simp add: calc_or_cache_def None fs)
      have stat2: "static_eq s ?s2" using stat unfolding static_eq_def by simp
      have "slot_ok (Inr v :: error + pyobj) s ?s2 x" for x
      proof -
        have "slot_ok (Inr v :: error + pyobj) ?s0 s1 x" using st Inr unfolding step_ok_def by blast
        then show ?thesis using avs by (rule slot_ok_miss_Inr [OF None])
      qed
      then have "step_ok (Inr v :: error + pyobj) s ?s2"
        using stat2 unfolding step_ok_def by simp
      then show ?thesis using eq by simp
    qed
  qed
qed


subsection \<open>Results of the resolver and of sequencing\<close>

lemma bindE_Inr:
  assumes "bindE m f s = (Inr v, s')"
  obtains u s1 where "m s = (Inr u, s1)" and "f u s1 = (Inr v, s')"
  using assms by (auto simp: bindE_def split: prod.splits sum.splits)

lemma liftE_Inr:
  assumes "liftE g s = (Inr v, s')"
  shows "g s = Inr v \<and> s' = s"
  using assms by (auto simp: liftE_def)

lemma returnE_Inr:
  assumes "returnE u s = (Inr v, s')"
  shows "v = u \<and> s' = s"
  using assms by (auto simp: returnE_def)

lemma calc_or_cache_hit:
  "cache parent (a, k) = Some v \<Longrightarrow> calc_or_cache a k f st parent = (Inr v, parent)"
  by (simp add: calc_or_cache_def)

lemma calc_or_cache_miss_Inr:
  fixes parent :: system
  assumes "cache parent (a, k) = None"
    and "f k st (parent\<lparr>compute_log := compute_log parent @ [(a, k)]\<rparr>) = (Inr v, s1)"
  shows "calc_or_cache a k f st parent = (Inr v, s1\<lparr>cache := (cache s1)((a, k) \<mapsto> v)\<rparr>)"
  using assms by (simp add: calc_or_cache_def)

lemma calc_or_cache_miss_Inl:
  fixes parent :: system
  assumes "cache parent (a, k) = None"
    and "f k st (parent\<lparr>compute_log := compute_log parent @ [(a, k)]\<rparr>) = (Inl e, s1)"
  shows "calc_or_cache a k f st parent = (Inl e, s1)"
  using assms by (simp add: calc_or_cache_def)

lemma calc_or_cache_miss_cases:
  fixes parent :: system
  assumes miss: "cache parent (a, k) = None"
    and run: "calc_or_cache a k f st parent = (Inr v, parent')"
  obtains s1 where "f k st (parent\<lparr>compute_log := compute_log parent @ [(a, k)]\<rparr>) = (Inr v, s1)"
    and "parent' = s1\<lparr>cache := (cache s1)((a, k) \<mapsto> v)\<rparr>"
  using assms by (auto simp: calc_or_cache_def split: prod.splits sum.splits)

lemma calc_or_cache_stores:
  assumes "calc_or_cache a k f st parent = (Inr v, parent')"
  shows "cache parent' (a, k) = Some v"
  using assms by (auto simp: calc_or_cache_def split: option.splits prod.splits sum.splits)

lemma calc_or_cache_miss_invokes:
  assumes miss: "cache parent (a, k) = None" and av: "avoids (a, k) (f k st)"
  shows "invocations (snd (calc_or_cache a k f st parent)) (a, k) = invocations parent (a, k) + 1"
proof -
  let ?s0 = "parent\<lparr>compute_log := compute_log parent @ [(a, k)]\<rparr>"
  have "invocations (snd (f k st ?s0)) (a, k) = invocations ?s0 (a, k)"
    using av unfolding avoids_def by simp
  then have "invocations (snd (f k st ?s0)) (a, k) = invocations parent (a, k) + 1"
    by (simp add: invocations_log_same)
  then show ?thesis
    using miss
    by (auto simp: calc_or_cache_def invocations_cache_upd split: prod.splits sum.splits)
qed

subsection \<open>Every accessor keeps stored values and invokes each compute function at most once\<close>

lemma ok_get_combined_forecast: "ok (get_combined_forecast self i)"
  by (simp add: get_combined_forecast_def ok_liftE)

lemma ok_get_price_volatility: "ok (get_price_volatility self i)"
  by (simp add: get_price_volatility_def ok_bindE ok_liftE ok_returnE)

lemma ok_get_instrument_sizing_data: "ok (get_instrument_sizing_data self i)"
  by (simp add: get_instrument_sizing_data_def ok_bindE ok_liftE ok_returnE)

lemma avoids_get_combined_forecast: "avoids x (get_combined_forecast self i)"
  by (simp add: get_combined_forecast_def avoids_liftE)

lemma avoids_get_price_volatility: "avoids x (get_price_volatility self i)"
  by (simp add: get_price_volatility_def avoids_bindE avoids_liftE avoids_returnE)

lemma avoids_get_instrument_sizing_data: "avoids x (get_instrument_sizing_data self i)"
  by (simp add: get_instrument_sizing_data_def avoids_bindE avoids_liftE avoids_returnE)

lemma get_vol_target_state: "snd (get_vol_target G k self parent) = parent"
  by (simp add: get_vol_target_def Let_def)

lemma ok_get_vol_target: "ok (get_vol_target G k self)"
  by (simp add: ok_def get_vol_target_state step_ok_refl)

lemma avoids_get_vol_target: "avoids x (get_vol_target G k self)"
  by (simp add: avoids_def get_vol_target_state)

lemma ok_get_daily_cash_vol_target: "ok (get_daily_cash_vol_target G self)"
  unfolding get_daily_cash_vol_target_def
  by (rule ok_calc_or_cache) (rule ok_get_vol_target avoids_get_vol_target)+

lemma avoids_get_daily_cash_vol_target:
  "fst x \<noteq> ''_vol_target'' \<Longrightarrow> avoids x (get_daily_cash_vol_target G self)"
  unfolding get_daily_cash_vol_target_def
  by (rule avoids_calc_or_cache) (auto simp: avoids_get_vol_target)

lemma ok_local_get_fx_rate: "ok (local_get_fx_rate G i self)"
  by (simp add: local_get_fx_rate_def ok_bindE ok_liftE ok_returnE ok_get_daily_cash_vol_target)

lemma avoids_local_get_fx_rate:
  "fst x \<noteq> ''_vol_target'' \<Longrightarrow> avoids x (local_get_fx_rate G i self)"
  by (simp add: local_get_fx_rate_def avoids_bindE avoids_liftE avoids_returnE
      avoids_get_daily_cash_vol_target)

lemma ok_get_fx_rate: "ok (get_fx_rate G self i)"
  unfolding get_fx_rate_def
  by (rule ok_calc_or_cache) (simp_all add: ok_local_get_fx_rate avoids_local_get_fx_rate)

lemma avoids_get_fx_rate:
  "fst x \<noteq> ''_vol_target'' \<Longrightarrow> fst x \<noteq> ''_fx_rate'' \<Longrightarrow> avoids x (get_fx_rate G self i)"
  unfolding get_fx_rate_def
  by (rule avoids_calc_or_cache) (auto simp: avoids_local_get_fx_rate)

lemma ok_local_get_block_value: "ok (local_get_block_value G i self)"
  by (auto simp: local_get_block_value_def ok_get_instrument_sizing_data ok_returnE
      intro!: ok_bindE split: prod.splits)

lemma avoids_local_get_block_value: "avoids x (local_get_block_value G i self)"
  by (auto simp: local_get_block_value_def avoids_get_instrument_sizing_data avoids_returnE
      intro!: avoids_bindE split: prod.splits)

lemma ok_get_block_value: "ok (get_block_value G self i)"
  unfolding get_block_value_def
  by (rule ok_calc_or_cache) (simp_all add: ok_local_get_block_value avoids_local_get_block_value)

lemma avoids_get_block_value:
  "fst x \<noteq> ''_block_value'' \<Longrightarrow> avoids x (get_block_value G self i)"
  unfolding get_block_value_def
  by (rule avoids_calc_or_cache) (auto simp: avoids_local_get_block_value)

lemma ok_local_get_instrument_currency_vol: "ok (local_get_instrument_currency_vol G i self)"
  by (simp add: local_get_instrument_currency_vol_def ok_bindE ok_liftE ok_returnE
      ok_get_block_value ok_get_price_volatility)

lemma avoids_local_get_instrument_currency_vol:
  "fst x \<noteq> ''_block_value'' \<Longrightarrow> avoids x (local_get_instrument_currency_vol G i self)"
  by (simp add: local_get_instrument_currency_vol_def avoids_bindE avoids_liftE avoids_returnE
      avoids_get_block_value avoids_get_price_volatility)

lemma ok_get_instrument_currency_vol: "ok (get_instrument_currency_vol G self i)"
  unfolding get_instrument_currency_vol_def
  by (rule ok_calc_or_cache)
    (simp_all add: ok_local_get_instrument_currency_vol avoids_local_get_instrument_currency_vol)

lemma avoids_get_instrument_currency_vol:
  "fst x \<noteq> ''_block_value'' \<Longrightarrow> fst x \<noteq> ''_instrument_currency_vol'' \<Longrightarrow>
   avoids x (get_instrument_currency_vol G self i)"
  unfolding get_instrument_currency_vol_def
  by (rule avoids_calc_or_cache) (auto simp: avoids_local_get_instrument_currency_vol)

lemma ok_local_get_instrument_value_vol: "ok (local_get_instrument_value_vol G i self)"
  by (simp add: local_get_instrument_value_vol_def ok_bindE ok_liftE ok_returnE
      ok_get_instrument_currency_vol ok_get_fx_rate)

lemma avoids_local_get_instrument_value_vol:
  "fst x \<notin> {''_block_value'', ''_instrument_currency_vol'', ''_fx_rate'', ''_vol_target''} \<Longrightarrow>
   avoids x (local_get_instrument_value_vol G i self)"
  by (simp add: local_get_instrument_value_vol_def avoids_bindE avoids_liftE avoids_returnE
      avoids_get_instrument_currency_vol avoids_get_fx_rate)

lemma ok_get_instrument_value_vol: "ok (get_instrument_value_vol G self i)"
  unfolding get_instrument_value_vol_def
  by (rule ok_calc_or_cache)
    (simp_all add: ok_local_get_instrument_value_vol avoids_local_get_instrument_value_vol)

lemma avoids_get_instrument_value_vol:
  "fst x \<notin> {''_block_value'', ''_instrument_currency_vol'', ''_fx_rate'', ''_vol_target'',
     ''_instrument_value_vol''} \<Longrightarrow>
   avoids x (get_instrument_value_vol G self i)"
  unfolding get_instrument_value_vol_def
  by (rule avoids_calc_or_cache) (auto simp: avoids_local_get_instrument_value_vol)

lemma ok_local_get_volatility_scalar: "ok (local_get_volatility_scalar G i self)"
  by (simp add: local_get_volatility_scalar_def ok_bindE ok_liftE ok_returnE
      ok_get_instrument_value_vol ok_get_daily_cash_vol_target)

lemma avoids_local_get_volatility_scalar:
  "fst x \<notin> {''_block_value'', ''_instrument_currency_vol'', ''_fx_rate'', ''_vol_target'',
     ''_instrument_value_vol''} \<Longrightarrow>
   avoids x (local_get_volatility_scalar G i self)"
  by (simp add: local_get_volatility_scalar_def avoids_bindE avoids_liftE avoids_returnE
      avoids_get_instrument_value_vol avoids_get_daily_cash_vol_target)

lemma ok_get_volatility_scalar: "ok (get_volatility_scalar G self i)"
  unfolding get_volatility_scalar_def
  by (rule ok_calc_or_cache)
    (simp_all add: ok_local_get_volatility_scalar avoids_local_get_volatility_scalar)

lemma avoids_get_volatility_scalar:
  "fst x \<notin> {''_block_value'', ''_instrument_currency_vol'', ''_fx_rate'', ''_vol_target'',
     ''_instrument_value_vol'', ''_vol_scalar''} \<Longrightarrow>
   avoids x (get_volatility_scalar G self i)"
  unfolding get_volatility_scalar_def
  by (rule avoids_calc_or_cache) (auto simp: avoids_local_get_volatility_scalar)

lemma ok_local_get_subsys_position: "ok (local_get_subsys_position G i self)"
  by (simp add: local_get_subsys_position_def Let_def ok_bindE ok_liftE ok_returnE
      ok_get_volatility_scalar ok_get_combined_forecast)

lemma avoids_local_get_subsys_position:
  "fst x \<notin> {''_block_value'', ''_instrument_currency_vol'', ''_fx_rate'', ''_vol_target'',
     ''_instrument_value_vol'', ''_vol_scalar''} \<Longrightarrow>
   avoids x (local_get_subsys_position G i self)"
  by (simp add: local_get_subsys_position_def Let_def avoids_bindE avoids_liftE avoids_returnE
      avoids_get_volatility_scalar avoids_get_combined_forecast)

lemma ok_get_subsys_position: "ok (get_subsys_position G self i)"
  unfolding get_subsys_position_def
  by (rule ok_calc_or_cache)
    (simp_all add: ok_local_get_subsys_position avoids_local_get_subsys_position)

lemma ok_call: "ok (call G self a i)"
  by (cases a)
    (auto simp: ok_get_combined_forecast ok_get_price_volatility ok_get_instrument_sizing_data
      ok_get_daily_cash_vol_target ok_get_fx_rate ok_get_block_value
      ok_get_instrument_currency_vol ok_get_instrument_value_vol ok_get_volatility_scalar
      ok_get_subsys_position ok_returnE intro!: ok_bindE split: prod.splits)

subsection \<open>The cash volatility target\<close>

lemma sqrt_256: "sqrt 256 = 16"
proof -
  have "sqrt ((16::real)\<^sup>2) = 16" by (simp only: real_sqrt_abs abs_numeral)
  then show ?thesis by simp
qed

lemma ROOT_BDAYS_INYEAR_nonzero: "0 < BUSINESS_DAYS_IN_YEAR G \<Longrightarrow> ROOT_BDAYS_INYEAR G \<noteq> 0"
  by (simp add: ROOT_BDAYS_INYEAR_def)

lemma get_vol_target_returns:
  assumes "0 < BUSINESS_DAYS_IN_YEAR G"
  shows "\<exists>d. get_vol_target G k self parent = (Inr (Dict d), parent) \<and>
     annual_cash_vol_target d = notional_trading_capital d * percentage_vol_target d / 100 \<and>
     daily_cash_vol_target d = annual_cash_vol_target d / sqrt (BUSINESS_DAYS_IN_YEAR G)"
  using ROOT_BDAYS_INYEAR_nonzero [OF assms]
  by (simp add: get_vol_target_def Let_def ROOT_BDAYS_INYEAR_def)

text \<open>
  Claim C4. On a first access, with a positive number of business days per year,
  \<^verbatim>\<open>get_daily_cash_vol_target\<close> returns a dictionary whose annual cash volatility target is
  notional trading capital times percentage volatility target over 100 and whose daily
  target is the annual one over the square root of the business days per year. The
  dictionary is stored under (\<^verbatim>\<open>_vol_target\<close>, \<^verbatim>\<open>ALL_KEYNAME\<close>), where the next access finds
  it, and \<^verbatim>\<open>_vol_target\<close> is on the stage's list of attributes kept on recalculation and
  not on the list of those deleted. With a target of 10 percent, a capital of 1,000,000
  and 256 business days the daily target is 6250.
\<close>

theorem daily_cash_vol_target_formula:
  assumes miss: "cache parent (''_vol_target'', ALL_KEYNAME G) = None"
    and days: "0 < BUSINESS_DAYS_IN_YEAR G"
  shows "\<exists>d parent'.
     get_daily_cash_vol_target G self parent = (Inr (Dict d), parent') \<and>
     annual_cash_vol_target d = notional_trading_capital d * percentage_vol_target d / 100 \<and>
     daily_cash_vol_target d = annual_cash_vol_target d / sqrt (BUSINESS_DAYS_IN_YEAR G) \<and>
     cache parent' (''_vol_target'', ALL_KEYNAME G) = Some (Dict d) \<and>
     get_daily_cash_vol_target G self parent' = (Inr (Dict d), parent') \<and>
     ''_vol_target'' \<in> set (dont_recalc (PositionSizing_init p n b)) \<and>
     ''_vol_target'' \<notin> set (delete_on_recalc (PositionSizing_init p n b)) \<and>
     (percentage_vol_target d = 10 \<and> notional_trading_capital d = 1000000 \<and>
      BUSINESS_DAYS_IN_YEAR G = 256 \<longrightarrow> daily_cash_vol_target d = 6250)"
proof -
  let ?p0 = "parent\<lparr>compute_log := compute_log parent @ [(''_vol_target'', ALL_KEYNAME G)]\<rparr>"
  obtain d where d: "get_vol_target G (ALL_KEYNAME G) self ?p0 = (Inr (Dict d), ?p0)"
    and annual: "annual_cash_vol_target d = notional_trading_capital d * percentage_vol_target d / 100"
    and daily: "daily_cash_vol_target d = annual_cash_vol_target d / sqrt (BUSINESS_DAYS_IN_YEAR G)"
    using get_vol_target_returns [OF days] by blast
  let ?p1 = "?p0\<lparr>cache := (cache ?p0)((''_vol_target'', ALL_KEYNAME G) \<mapsto> Dict d)\<rparr>"
  have run: "get_daily_cash_vol_target G self parent = (Inr (Dict d), ?p1)"
    by (simp add: get_daily_cash_vol_target_def calc_or_cache_def miss d)
  have stored: "cache ?p1 (''_vol_target'', ALL_KEYNAME G) = Some (Dict d)"
    by simp
  have again: "get_daily_cash_vol_target G self ?p1 = (Inr (Dict d), ?p1)"
    by (simp add: get_daily_cash_vol_target_def calc_or_cache_def)
  have lists: "''_vol_target'' \<in> set (dont_recalc (PositionSizing_init p n b)) \<and>
      ''_vol_target'' \<notin> set (delete_on_recalc (PositionSizing_init p n b))"
    by (simp add: PositionSizing_init_def)
  have example: "percentage_vol_target d = 10 \<and> notional_trading_capital d = 1000000 \<and>
      BUSINESS_DAYS_IN_YEAR G = 256 \<longrightarrow> daily_cash_vol_target d = 6250"
    by (simp add: daily annual sqrt_256)
  show ?thesis
    using run annual daily stored again lists example by blast
qed

text \<open>The example system reads 10 percent and 1,000,000 from its configuration.\<close>

theorem daily_cash_vol_target_formula_witness:
  "cache example_system (''_vol_target'', ALL_KEYNAME example_globals) = None \<and>
   0 < BUSINESS_DAYS_IN_YEAR example_globals \<and>
   (\<exists>d parent'.
     get_daily_cash_vol_target example_globals example_stage example_system =
       (Inr (Dict d), parent') \<and>
     percentage_vol_target d = 10 \<and> notional_trading_capital d = 1000000 \<and>
     BUSINESS_DAYS_IN_YEAR example_globals = 256 \<and>
     daily_cash_vol_target d = 6250)"
proof -
  have miss: "cache example_system (''_vol_target'', ALL_KEYNAME example_globals) = None"
    by (simp add: example_system_def)
  have days: "0 < BUSINESS_DAYS_IN_YEAR example_globals"
    by (simp add: example_globals_def)
  obtain d parent' where
      run: "get_daily_cash_vol_target example_globals example_stage example_system =
              (Inr (Dict d), parent')"
    and ex: "percentage_vol_target d = 10 \<and> notional_trading_capital d = 1000000 \<and>
      BUSINESS_DAYS_IN_YEAR example_globals = 256 \<longrightarrow> daily_cash_vol_target d = 6250"
    using daily_cash_vol_target_formula [OF miss days, of example_stage] by blast
  have "get_vol_target example_globals k example_stage s =
     (if ROOT_BDAYS_INYEAR example_globals = 0 then (Inl ZeroDivisionError, s) else
      (Inr (Dict \<lparr>base_currency = ''GBP'', percentage_vol_target = 10,
         notional_trading_capital = 1000000, annual_cash_vol_target = 100000,
         daily_cash_vol_target = 100000 / ROOT_BDAYS_INYEAR example_globals\<rparr>), s))"
    if "config s = config example_system" for k s
    using that
    by (simp add: get_vol_target_def example_stage_def PositionSizing_init_def
        config_parameters_def example_system_def Let_def)
  then have vals: "percentage_vol_target d = 10 \<and> notional_trading_capital d = 1000000"
    using run ROOT_BDAYS_INYEAR_nonzero [OF days]
    by (auto simp: get_daily_cash_vol_target_def calc_or_cache_def miss split: prod.splits sum.splits if_splits)
  have "BUSINESS_DAYS_IN_YEAR example_globals = 256" by (simp add: example_globals_def)
  with miss days run ex vals show ?thesis by blast
qed


subsection \<open>The three-tier fallback\<close>

lemma get_vol_target_three_tier:
  assumes "0 < BUSINESS_DAYS_IN_YEAR G"
  shows "\<exists>d. get_vol_target G k self parent = (Inr (Dict d), parent) \<and>
     percentage_vol_target d =
       three_tier (passed_percentage_vol_target self)
         (config_parameters cfg_percentage_vol_target parent)
         (default_percentage_vol_target (system_defaults G)) \<and>
     notional_trading_capital d =
       three_tier (passed_notional_trading_capital self)
         (config_parameters cfg_notional_trading_capital parent)
         (default_notional_trading_capital (system_defaults G)) \<and>
     base_currency d =
       three_tier (passed_base_currency self)
         (config_parameters cfg_base_currency parent)
         (default_base_currency (system_defaults G))"
  using ROOT_BDAYS_INYEAR_nonzero [OF assms]
  by (simp add: get_vol_target_def Let_def three_tier_def)

lemma config_parameters_log:
  "config_parameters field (parent\<lparr>compute_log := l\<rparr>) = config_parameters field parent"
  by (simp add: config_parameters_def)

text \<open>
  Claim C5. On a first access, each of percentage volatility target, notional trading
  capital and base currency in the dictionary of \<^verbatim>\<open>get_daily_cash_vol_target\<close> is the
  three-tier fallback of the spec: the constructor argument when it is not \<open>None\<close>, else
  the value read from \<^verbatim>\<open>system.config.parameters\<close>, else the compiled default. The compute
  function is invoked once for it, and every later access returns the stored dictionary
  and leaves the parent as it is, whatever the configuration or the stage's arguments
  have become.
\<close>

theorem three_tier_fallback_resolved_once:
  assumes miss: "cache parent (''_vol_target'', ALL_KEYNAME G) = None"
    and days: "0 < BUSINESS_DAYS_IN_YEAR G"
  shows "\<exists>d parent'.
     get_daily_cash_vol_target G self parent = (Inr (Dict d), parent') \<and>
     percentage_vol_target d =
       three_tier (passed_percentage_vol_target self)
         (config_parameters cfg_percentage_vol_target parent)
         (default_percentage_vol_target (system_defaults G)) \<and>
     notional_trading_capital d =
       three_tier (passed_notional_trading_capital self)
         (config_parameters cfg_notional_trading_capital parent)
         (default_notional_trading_capital (system_defaults G)) \<and>
     base_currency d =
       three_tier (passed_base_currency self)
         (config_parameters cfg_base_currency parent)
         (default_base_currency (system_defaults G)) \<and>
     invocations parent' (''_vol_target'', ALL_KEYNAME G) =
       invocations parent (''_vol_target'', ALL_KEYNAME G) + 1 \<and>
     (\<forall>self' config'.
        get_daily_cash_vol_target G self' (parent'\<lparr>config := config'\<rparr>) =
          (Inr (Dict d), parent'\<lparr>config := config'\<rparr>))"
proof -
  let ?slot = "(''_vol_target'', ALL_KEYNAME G)"
  let ?p0 = "parent\<lparr>compute_log := compute_log parent @ [?slot]\<rparr>"
  obtain d where d: "get_vol_target G (ALL_KEYNAME G) self ?p0 = (Inr (Dict d), ?p0)"
    and tiers:
      "percentage_vol_target d =
         three_tier (passed_percentage_vol_target self)
           (config_parameters cfg_percentage_vol_target parent)
           (default_percentage_vol_target (system_defaults G))"
      "notional_trading_capital d =
         three_tier (passed_notional_trading_capital self)
           (config_parameters cfg_notional_trading_capital parent)
           (default_notional_trading_capital (system_defaults G))"
      "base_currency d =
         three_tier (passed_base_currency self)
           (config_parameters cfg_base_currency parent)
           (default_base_currency (system_defaults G))"
    using get_vol_target_three_tier [OF days, of "ALL_KEYNAME G" self ?p0]
    by (auto simp: config_parameters_log)
  let ?p1 = "?p0\<lparr>cache := (cache ?p0)(?slot \<mapsto> Dict d)\<rparr>"
  have run: "get_daily_cash_vol_target G self parent = (Inr (Dict d), ?p1)"
    unfolding get_daily_cash_vol_target_def using miss d by (rule calc_or_cache_miss_Inr)
  have count: "invocations ?p1 ?slot = invocations parent ?slot + 1"
    by (simp add: invocations_def)
  have later: "get_daily_cash_vol_target G self' (?p1\<lparr>config := config'\<rparr>) =
      (Inr (Dict d), ?p1\<lparr>config := config'\<rparr>)" for self' config'
    unfolding get_daily_cash_vol_target_def by (rule calc_or_cache_hit) simp
  show ?thesis
    using run tiers count later by blast
qed

text \<open>
  A stage built with the base currency CHF, on a configuration that has a target of 10
  percent and the base currency GBP but no capital: CHF, 10 and the default 1,000,000.
\<close>

theorem three_tier_fallback_resolved_once_witness:
  "cache (example_system\<lparr>config := Inr \<lparr>cfg_percentage_vol_target = Some 10,
          cfg_notional_trading_capital = None, cfg_base_currency = Some ''GBP'',
          cfg_average_absolute_forecast = None\<rparr>\<rparr>)
     (''_vol_target'', ALL_KEYNAME example_globals) = None \<and>
   0 < BUSINESS_DAYS_IN_YEAR example_globals \<and>
   (\<exists>d parent'.
     get_daily_cash_vol_target example_globals (PositionSizing_init None None (Some ''CHF''))
       (example_system\<lparr>config := Inr \<lparr>cfg_percentage_vol_target = Some 10,
          cfg_notional_trading_capital = None, cfg_base_currency = Some ''GBP'',
          cfg_average_absolute_forecast = None\<rparr>\<rparr>) = (Inr (Dict d), parent') \<and>
     percentage_vol_target d = 10 \<and> notional_trading_capital d = 1000000 \<and>
     base_currency d = ''CHF'' \<and>
     invocations parent' (''_vol_target'', ALL_KEYNAME example_globals) = 1 \<and>
     get_daily_cash_vol_target example_globals example_stage
       (parent'\<lparr>config := Inl AttributeError\<rparr>) =
       (Inr (Dict d), parent'\<lparr>config := Inl AttributeError\<rparr>))"
proof -
  let ?sys = "example_system\<lparr>config := Inr \<lparr>cfg_percentage_vol_target = Some 10,
          cfg_notional_trading_capital = None, cfg_base_currency = Some ''GBP'',
          cfg_average_absolute_forecast = None\<rparr>\<rparr>"
  have miss: "cache ?sys (''_vol_target'', ALL_KEYNAME example_globals) = None"
    by (simp add: example_system_def)
  have days: "0 < BUSINESS_DAYS_IN_YEAR example_globals"
    by (simp add: example_globals_def)
  have inv0: "invocations ?sys (''_vol_target'', ALL_KEYNAME example_globals) = 0"
    by (simp add: invocations_def example_system_def)
  have t1: "three_tier (passed_percentage_vol_target (PositionSizing_init None None (Some ''CHF'')))
         (config_parameters cfg_percentage_vol_target ?sys)
         (default_percentage_vol_target (system_defaults example_globals)) = 10"
    by (simp add: three_tier_def PositionSizing_init_def config_parameters_def)
  have t2: "three_tier (passed_notional_trading_capital (PositionSizing_init None None (Some ''CHF'')))
         (config_parameters cfg_notional_trading_capital ?sys)
         (default_notional_trading_capital (system_defaults example_globals)) = 1000000"
    by (simp add: three_tier_def PositionSizing_init_def config_parameters_def example_globals_def)
  have t3: "three_tier (passed_base_currency (PositionSizing_init None None (Some ''CHF'')))
         (config_parameters cfg_base_currency ?sys)
         (default_base_currency (system_defaults example_globals)) = ''CHF''"
    by (simp add: three_tier_def PositionSizing_init_def)
  show ?thesis
    using three_tier_fallback_resolved_once [OF miss days,
        of "PositionSizing_init None None (Some ''CHF'')"]
      miss days
    unfolding t1 t2 t3 inv0 by fastforce
qed

subsection \<open>Failures while reading the configuration\<close>

lemma get_vol_target_only_zero_division:
  assumes "get_vol_target G k self parent = (Inl e, parent')"
  shows "e = ZeroDivisionError \<and> ROOT_BDAYS_INYEAR G = 0"
  using assms by (simp add: get_vol_target_def Let_def split: if_splits)

lemma get_daily_cash_vol_target_only_zero_division:
  assumes "get_daily_cash_vol_target G self parent = (Inl e, parent')"
  shows "e = ZeroDivisionError \<and> ROOT_BDAYS_INYEAR G = 0"
proof (cases "cache parent (''_vol_target'', ALL_KEYNAME G)")
  case None
  then obtain s1 where
    "get_vol_target G (ALL_KEYNAME G) self
       (parent\<lparr>compute_log := compute_log parent @ [(''_vol_target'', ALL_KEYNAME G)]\<rparr>) =
     (Inl e, s1)"
    using assms
    by (auto simp: get_daily_cash_vol_target_def calc_or_cache_def split: prod.splits sum.splits)
  then show ?thesis by (rule get_vol_target_only_zero_division)
next
  case (Some v)
  then show ?thesis
    using assms by (simp add: get_daily_cash_vol_target_def calc_or_cache_def)
qed

text \<open>
  Claim C9. Whatever exception reading \<^verbatim>\<open>system.config.parameters\<close> raises for
  percentage volatility target, notional trading capital or base currency (the error
  \<open>e1\<close>, \<open>e2\<close>, \<open>e3\<close> is arbitrary), a parameter that was not passed to the constructor
  takes the compiled default of \<^verbatim>\<open>system_defaults\<close>, and with a positive number of business
  days \<^verbatim>\<open>_get_vol_target\<close> returns its dictionary. The only exception that
  \<^verbatim>\<open>_get_vol_target\<close> or \<^verbatim>\<open>get_daily_cash_vol_target\<close> can raise is the division by a zero
  \<^verbatim>\<open>ROOT_BDAYS_INYEAR\<close>, never one of the configuration.
\<close>

theorem config_tier_never_raises:
  "(0 < BUSINESS_DAYS_IN_YEAR G \<longrightarrow>
      (\<exists>d. get_vol_target G k self parent = (Inr (Dict d), parent) \<and>
         (passed_percentage_vol_target self = None \<and>
          config_parameters cfg_percentage_vol_target parent = Inl e1 \<longrightarrow>
            percentage_vol_target d = default_percentage_vol_target (system_defaults G)) \<and>
         (passed_notional_trading_capital self = None \<and>
          config_parameters cfg_notional_trading_capital parent = Inl e2 \<longrightarrow>
            notional_trading_capital d = default_notional_trading_capital (system_defaults G)) \<and>
         (passed_base_currency self = None \<and>
          config_parameters cfg_base_currency parent = Inl e3 \<longrightarrow>
            base_currency d = default_base_currency (system_defaults G)))) \<and>
   (\<forall>e parent'. get_vol_target G k self parent = (Inl e, parent') \<longrightarrow>
      e = ZeroDivisionError \<and> ROOT_BDAYS_INYEAR G = 0) \<and>
   (\<forall>e parent'. get_daily_cash_vol_target G self parent = (Inl e, parent') \<longrightarrow>
      e = ZeroDivisionError \<and> ROOT_BDAYS_INYEAR G = 0)"
proof (intro conjI impI allI)
  assume days: "0 < BUSINESS_DAYS_IN_YEAR G"
  obtain d where d: "get_vol_target G k self parent = (Inr (Dict d), parent)"
    and t1: "percentage_vol_target d =
       three_tier (passed_percentage_vol_target self)
         (config_parameters cfg_percentage_vol_target parent)
         (default_percentage_vol_target (system_defaults G))"
    and t2: "notional_trading_capital d =
       three_tier (passed_notional_trading_capital self)
         (config_parameters cfg_notional_trading_capital parent)
         (default_notional_trading_capital (system_defaults G))"
    and t3: "base_currency d =
       three_tier (passed_base_currency self)
         (config_parameters cfg_base_currency parent)
         (default_base_currency (system_defaults G))"
    using get_vol_target_three_tier [OF days] by blast
  show "\<exists>d. get_vol_target G k self parent = (Inr (Dict d), parent) \<and>
         (passed_percentage_vol_target self = None \<and>
          config_parameters cfg_percentage_vol_target parent = Inl e1 \<longrightarrow>
            percentage_vol_target d = default_percentage_vol_target (system_defaults G)) \<and>
         (passed_notional_trading_capital self = None \<and>
          config_parameters cfg_notional_trading_capital parent = Inl e2 \<longrightarrow>
            notional_trading_capital d = default_notional_trading_capital (system_defaults G)) \<and>
         (passed_base_currency self = None \<and>
          config_parameters cfg_base_currency parent = Inl e3 \<longrightarrow>
            base_currency d = default_base_currency (system_defaults G))"
    using d t1 t2 t3 by (auto simp: three_tier_def)
next
  fix e parent'
  assume "get_vol_target G k self parent = (Inl e, parent')"
  then show "e = ZeroDivisionError" "ROOT_BDAYS_INYEAR G = 0"
    using get_vol_target_only_zero_division by blast+
next
  fix e parent'
  assume "get_daily_cash_vol_target G self parent = (Inl e, parent')"
  then show "e = ZeroDivisionError" "ROOT_BDAYS_INYEAR G = 0"
    using get_daily_cash_vol_target_only_zero_division by blast+
qed

text \<open>
  The example system with a configuration object that has no \<^verbatim>\<open>parameters\<close> attribute:
  the three values are the defaults 16, 1,000,000 and USD.
\<close>

theorem config_tier_never_raises_witness:
  "0 < BUSINESS_DAYS_IN_YEAR example_globals \<and>
   passed_percentage_vol_target example_stage = None \<and>
   passed_notional_trading_capital example_stage = None \<and>
   passed_base_currency example_stage = None \<and>
   config_parameters cfg_percentage_vol_target (example_system\<lparr>config := Inl AttributeError\<rparr>) =
     Inl AttributeError \<and>
   config_parameters cfg_notional_trading_capital (example_system\<lparr>config := Inl AttributeError\<rparr>) =
     Inl AttributeError \<and>
   config_parameters cfg_base_currency (example_system\<lparr>config := Inl AttributeError\<rparr>) =
     Inl AttributeError \<and>
   (\<exists>d. get_vol_target example_globals ''all'' example_stage
          (example_system\<lparr>config := Inl AttributeError\<rparr>) =
        (Inr (Dict d), example_system\<lparr>config := Inl AttributeError\<rparr>) \<and>
      percentage_vol_target d = 16 \<and> notional_trading_capital d = 1000000 \<and>
      base_currency d = ''USD'')"
proof -
  let ?sys = "example_system\<lparr>config := Inl AttributeError\<rparr>"
  have days: "0 < BUSINESS_DAYS_IN_YEAR example_globals"
    by (simp add: example_globals_def)
  have passed: "passed_percentage_vol_target example_stage = None"
      "passed_notional_trading_capital example_stage = None"
      "passed_base_currency example_stage = None"
    by (simp_all add: example_stage_def PositionSizing_init_def)
  have cfg: "config_parameters cfg_percentage_vol_target ?sys = Inl AttributeError"
      "config_parameters cfg_notional_trading_capital ?sys = Inl AttributeError"
      "config_parameters cfg_base_currency ?sys = Inl AttributeError"
    by (simp_all add: config_parameters_def)
  have dflt: "default_percentage_vol_target (system_defaults example_globals) = 16"
      "default_notional_trading_capital (system_defaults example_globals) = 1000000"
      "default_base_currency (system_defaults example_globals) = ''USD''"
    by (simp_all add: example_globals_def)
  show ?thesis
    using config_tier_never_raises [of example_globals "''all''" example_stage ?sys
        AttributeError AttributeError AttributeError]
      days passed cfg
    unfolding dflt by fastforce
qed

subsection \<open>A failed computation stores nothing\<close>

lemma example_ROOT_BDAYS_INYEAR: "ROOT_BDAYS_INYEAR example_globals = 16"
  by (simp add: ROOT_BDAYS_INYEAR_def example_globals_def sqrt_256)

lemma example_get_vol_target:
  assumes "config s = config example_system"
  shows "get_vol_target example_globals k example_stage s =
     (Inr (Dict \<lparr>base_currency = ''GBP'', percentage_vol_target = 10,
         notional_trading_capital = 1000000, annual_cash_vol_target = 100000,
         daily_cash_vol_target = 6250\<rparr>), s)"
  using assms
  by (simp add: get_vol_target_def example_stage_def PositionSizing_init_def
      config_parameters_def example_system_def Let_def example_ROOT_BDAYS_INYEAR)

lemma example_ALL_KEYNAME: "ALL_KEYNAME example_globals = ''all''"
  by (simp add: example_globals_def)



subsection \<open>Invalidation: volatile and persistent attributes\<close>

lemma get_daily_cash_vol_target_miss_invokes:
  assumes "cache parent (''_vol_target'', ALL_KEYNAME G) = None"
  shows "invocations (snd (get_daily_cash_vol_target G self parent)) (''_vol_target'', ALL_KEYNAME G) =
         invocations parent (''_vol_target'', ALL_KEYNAME G) + 1"
  unfolding get_daily_cash_vol_target_def using assms
  by (rule calc_or_cache_miss_invokes) (simp add: avoids_get_vol_target)

lemma get_fx_rate_miss_invokes:
  assumes "cache parent (''_fx_rate'', i) = None"
  shows "invocations (snd (get_fx_rate G self i parent)) (''_fx_rate'', i) =
         invocations parent (''_fx_rate'', i) + 1"
  unfolding get_fx_rate_def using assms
  by (rule calc_or_cache_miss_invokes) (simp add: avoids_local_get_fx_rate)

lemma get_block_value_miss_invokes:
  assumes "cache parent (''_block_value'', i) = None"
  shows "invocations (snd (get_block_value G self i parent)) (''_block_value'', i) =
         invocations parent (''_block_value'', i) + 1"
  unfolding get_block_value_def using assms
  by (rule calc_or_cache_miss_invokes) (simp add: avoids_local_get_block_value)

lemma get_instrument_currency_vol_miss_invokes:
  assumes "cache parent (''_instrument_currency_vol'', i) = None"
  shows "invocations (snd (get_instrument_currency_vol G self i parent)) (''_instrument_currency_vol'', i) =
         invocations parent (''_instrument_currency_vol'', i) + 1"
  unfolding get_instrument_currency_vol_def using assms
  by (rule calc_or_cache_miss_invokes) (simp add: avoids_local_get_instrument_currency_vol)

lemma get_instrument_value_vol_miss_invokes:
  assumes "cache parent (''_instrument_value_vol'', i) = None"
  shows "invocations (snd (get_instrument_value_vol G self i parent)) (''_instrument_value_vol'', i) =
         invocations parent (''_instrument_value_vol'', i) + 1"
  unfolding get_instrument_value_vol_def using assms
  by (rule calc_or_cache_miss_invokes) (simp add: avoids_local_get_instrument_value_vol)

lemma get_volatility_scalar_miss_invokes:
  assumes "cache parent (''_vol_scalar'', i) = None"
  shows "invocations (snd (get_volatility_scalar G self i parent)) (''_vol_scalar'', i) =
         invocations parent (''_vol_scalar'', i) + 1"
  unfolding get_volatility_scalar_def using assms
  by (rule calc_or_cache_miss_invokes) (simp add: avoids_local_get_volatility_scalar)

lemma get_subsys_position_miss_invokes:
  assumes "cache parent (''_subsys_position'', i) = None"
  shows "invocations (snd (get_subsys_position G self i parent)) (''_subsys_position'', i) =
         invocations parent (''_subsys_position'', i) + 1"
  unfolding get_subsys_position_def using assms
  by (rule calc_or_cache_miss_invokes) (simp add: avoids_local_get_subsys_position)

lemma call_miss_invokes:
  assumes attr: "cache_attribute acc = Some a"
    and miss: "cache parent (a, cache_key G acc i) = None"
  shows "invocations (snd (call G self acc i parent)) (a, cache_key G acc i) =
         invocations parent (a, cache_key G acc i) + 1"
  using attr miss
  by (cases acc)
    (auto simp: cache_key_def get_daily_cash_vol_target_miss_invokes get_fx_rate_miss_invokes
      get_block_value_miss_invokes get_instrument_currency_vol_miss_invokes
      get_instrument_value_vol_miss_invokes get_volatility_scalar_miss_invokes
      get_subsys_position_miss_invokes)

text \<open>
  Claim C3. \<^verbatim>\<open>invalidate_stage\<close> on the registered position sizing stage empties,
  for every key, every slot whose attribute is on the list \<^verbatim>\<open>_delete_on_recalc\<close> (the six
  names that \<^verbatim>\<open>__init__\<close> puts there) and changes no slot of another attribute, so none
  of \<^verbatim>\<open>_vol_target\<close>, the one attribute of \<^verbatim>\<open>_dont_recalc\<close>. Afterwards
  \<^verbatim>\<open>get_daily_cash_vol_target\<close> returns the object stored before, with the parent left as
  it is and so no compute function invoked, while each accessor with a volatile attribute
  invokes its compute function again.
\<close>

theorem invalidate_stage_partition:
  assumes reg: "stages parent ''positionSize'' = Some (PositionSizing_init p n b)"
  shows "\<exists>parent'.
     invalidate_stage ''positionSize'' parent = (Inr (), parent') \<and>
     delete_on_recalc (PositionSizing_init p n b) =
       [''_block_value'', ''_instrument_currency_vol'', ''_instrument_value_vol'',
        ''_vol_scalar'', ''_subsys_position'', ''_fx_rate''] \<and>
     dont_recalc (PositionSizing_init p n b) = [''_vol_target''] \<and>
     (\<forall>a k. a \<in> set (delete_on_recalc (PositionSizing_init p n b)) \<longrightarrow>
        cache parent' (a, k) = None) \<and>
     (\<forall>a k. a \<notin> set (delete_on_recalc (PositionSizing_init p n b)) \<longrightarrow>
        cache parent' (a, k) = cache parent (a, k)) \<and>
     (\<forall>a k. a \<in> set (dont_recalc (PositionSizing_init p n b)) \<longrightarrow>
        cache parent' (a, k) = cache parent (a, k)) \<and>
     compute_log parent' = compute_log parent \<and>
     (\<forall>v. cache parent (''_vol_target'', ALL_KEYNAME G) = Some v \<longrightarrow>
        get_daily_cash_vol_target G self parent' = (Inr v, parent')) \<and>
     (\<forall>acc a i. cache_attribute acc = Some a \<and>
        a \<in> set (delete_on_recalc (PositionSizing_init p n b)) \<longrightarrow>
        invocations (snd (call G self acc i parent')) (a, i) = invocations parent' (a, i) + 1)"
proof -
  let ?vol = "delete_on_recalc (PositionSizing_init p n b)"
  let ?p' = "parent\<lparr>cache := (\<lambda>(attrname, keyname).
              if attrname \<in> set ?vol then None else cache parent (attrname, keyname))\<rparr>"
  have run: "invalidate_stage ''positionSize'' parent = (Inr (), ?p')"
    by (simp add: invalidate_stage_def reg)
  have vol: "?vol = [''_block_value'', ''_instrument_currency_vol'', ''_instrument_value_vol'',
        ''_vol_scalar'', ''_subsys_position'', ''_fx_rate'']"
    and per: "dont_recalc (PositionSizing_init p n b) = [''_vol_target'']"
    by (simp_all add: PositionSizing_init_def)
  have cleared: "cache ?p' (a, k) = None" if "a \<in> set ?vol" for a k
    using that by simp
  have kept: "cache ?p' (a, k) = cache parent (a, k)" if "a \<notin> set ?vol" for a k
    using that by simp
  have kept_per: "cache ?p' (a, k) = cache parent (a, k)"
    if "a \<in> set (dont_recalc (PositionSizing_init p n b))" for a k
  proof -
    have "a \<notin> set ?vol" using that by (simp add: PositionSizing_init_def)
    then show ?thesis by (rule kept)
  qed
  have log: "compute_log ?p' = compute_log parent" by simp
  have persistent: "get_daily_cash_vol_target G self ?p' = (Inr v, ?p')"
    if "cache parent (''_vol_target'', ALL_KEYNAME G) = Some v" for v
  proof -
    have "cache ?p' (''_vol_target'', ALL_KEYNAME G) = Some v"
      using that by (simp add: PositionSizing_init_def)
    then show ?thesis
      unfolding get_daily_cash_vol_target_def by (rule calc_or_cache_hit)
  qed
  have volatile: "invocations (snd (call G self acc i ?p')) (a, i) = invocations ?p' (a, i) + 1"
    if "cache_attribute acc = Some a \<and> a \<in> set ?vol" for acc a i
  proof -
    from that have attr: "cache_attribute acc = Some a" and mem: "a \<in> set ?vol" by simp_all
    have "acc \<noteq> Get_daily_cash_vol_target"
      using attr mem by (auto simp: PositionSizing_init_def)
    then have key: "cache_key G acc i = i" by (simp add: cache_key_def)
    have "cache ?p' (a, cache_key G acc i) = None" using mem by (rule cleared)
    with attr have "invocations (snd (call G self acc i ?p')) (a, cache_key G acc i) =
         invocations ?p' (a, cache_key G acc i) + 1"
      by (rule call_miss_invokes)
    then show ?thesis by (simp only: key)
  qed
  show ?thesis
    using run vol per cleared kept kept_per log persistent volatile by blast
qed


text \<open>
  The example system after the FX rate of BUND has been fetched: both the target
  dictionary and the FX series are stored. Invalidation keeps the first and drops the
  second, and fetching the FX rate again invokes its compute function a second time.
\<close>

theorem invalidate_stage_partition_witness:
  "stages (snd (get_fx_rate example_globals example_stage ''BUND'' example_system))
     ''positionSize'' = Some (PositionSizing_init None None None) \<and>
   cache (snd (get_fx_rate example_globals example_stage ''BUND'' example_system))
     (''_fx_rate'', ''BUND'') = Some (Frame \<lparr>columns = [''fx''], rows = [(1, Val 1)]\<rparr>) \<and>
   (\<exists>parent'.
      invalidate_stage ''positionSize''
        (snd (get_fx_rate example_globals example_stage ''BUND'' example_system)) =
        (Inr (), parent') \<and>
      cache parent' (''_fx_rate'', ''BUND'') = None \<and>
      cache parent' (''_vol_target'', ''all'') =
        Some (Dict \<lparr>base_currency = ''GBP'', percentage_vol_target = 10,
            notional_trading_capital = 1000000, annual_cash_vol_target = 100000,
            daily_cash_vol_target = 6250\<rparr>) \<and>
      get_daily_cash_vol_target example_globals example_stage parent' =
        (Inr (Dict \<lparr>base_currency = ''GBP'', percentage_vol_target = 10,
            notional_trading_capital = 1000000, annual_cash_vol_target = 100000,
            daily_cash_vol_target = 6250\<rparr>), parent') \<and>
      invocations parent' (''_fx_rate'', ''BUND'') = 1 \<and>
      invocations (snd (get_fx_rate example_globals example_stage ''BUND'' parent'))
        (''_fx_rate'', ''BUND'') = 2)"
proof -
  let ?D = "Dict \<lparr>base_currency = ''GBP'', percentage_vol_target = 10,
            notional_trading_capital = 1000000, annual_cash_vol_target = 100000,
            daily_cash_vol_target = 6250\<rparr>"
  let ?F = "Frame \<lparr>columns = [''fx''], rows = [(1, Val 1)]\<rparr>"
  let ?p = "example_system\<lparr>compute_log := [(''_fx_rate'', ''BUND''), (''_vol_target'', ''all'')],
        cache := (cache example_system)((''_vol_target'', ''all'') \<mapsto> ?D,
          (''_fx_rate'', ''BUND'') \<mapsto> ?F)\<rparr>"
  have fetch: "get_fx_rate example_globals example_stage ''BUND'' example_system = (Inr ?F, ?p)"
    by (simp add: get_fx_rate_def calc_or_cache_def local_get_fx_rate_def bindE_def liftE_def
      returnE_def get_daily_cash_vol_target_def example_get_vol_target example_ALL_KEYNAME
      as_dict_def example_system_def)
  have reg: "stages ?p ''positionSize'' = Some (PositionSizing_init None None None)"
    by (simp add: example_system_def example_stage_def)
  have fx: "cache ?p (''_fx_rate'', ''BUND'') = Some ?F" by simp
  have vt: "cache ?p (''_vol_target'', ALL_KEYNAME example_globals) = Some ?D"
    by (simp add: example_ALL_KEYNAME)
  have inv: "invocations ?p (''_fx_rate'', ''BUND'') = 1"
    by (simp add: invocations_def)
  obtain parent' where run: "invalidate_stage ''positionSize'' ?p = (Inr (), parent')"
    and cleared: "\<forall>a k. a \<in> set (delete_on_recalc (PositionSizing_init None None None)) \<longrightarrow>
        cache parent' (a, k) = None"
    and kept: "\<forall>a k. a \<in> set (dont_recalc (PositionSizing_init None None None)) \<longrightarrow>
        cache parent' (a, k) = cache ?p (a, k)"
    and log: "compute_log parent' = compute_log ?p"
    and persistent: "\<forall>v. cache ?p (''_vol_target'', ALL_KEYNAME example_globals) = Some v \<longrightarrow>
        get_daily_cash_vol_target example_globals example_stage parent' = (Inr v, parent')"
    and volatile: "\<forall>acc a i. cache_attribute acc = Some a \<and>
        a \<in> set (delete_on_recalc (PositionSizing_init None None None)) \<longrightarrow>
        invocations (snd (call example_globals example_stage acc i parent')) (a, i) =
          invocations parent' (a, i) + 1"
    using invalidate_stage_partition [OF reg, of example_globals example_stage] by blast
  have c1: "cache parent' (''_fx_rate'', ''BUND'') = None"
    using cleared by (simp add: PositionSizing_init_def)
  have "cache parent' (''_vol_target'', ''all'') = cache ?p (''_vol_target'', ''all'')"
    using kept by (simp add: PositionSizing_init_def)
  then have c2: "cache parent' (''_vol_target'', ''all'') = Some ?D" by simp
  have c3: "get_daily_cash_vol_target example_globals example_stage parent' = (Inr ?D, parent')"
    using persistent vt by blast
  have c4: "invocations parent' (''_fx_rate'', ''BUND'') = 1"
    using log inv by (simp add: invocations_def)
  have "cache_attribute Get_fx_rate = Some ''_fx_rate'' \<and>
      ''_fx_rate'' \<in> set (delete_on_recalc (PositionSizing_init None None None))"
    by (simp add: PositionSizing_init_def)
  with volatile
  have "invocations (snd (call example_globals example_stage Get_fx_rate ''BUND'' parent'))
          (''_fx_rate'', ''BUND'') = invocations parent' (''_fx_rate'', ''BUND'') + 1"
    by blast
  then have c5: "invocations (snd (get_fx_rate example_globals example_stage ''BUND'' parent'))
        (''_fx_rate'', ''BUND'') = 2"
    using c4 by simp
  show ?thesis
    unfolding fetch snd_conv
    using reg fx run c1 c2 c3 c4 c5 by blast
qed

subsection \<open>Memoization\<close>

lemma step_okD:
  assumes "step_ok r s s'"
  shows "cache s x = Some v \<Longrightarrow> cache s' x = Some v"
    and "cache s x = Some v \<Longrightarrow> invocations s' x = invocations s x"
    and "invocations s' x \<le> invocations s x + 1"
proof -
  have "slot_ok r s s' x" using assms unfolding step_ok_def by blast
  then show "cache s x = Some v \<Longrightarrow> cache s' x = Some v"
    and "cache s x = Some v \<Longrightarrow> invocations s' x = invocations s x"
    and "invocations s' x \<le> invocations s x + 1"
    unfolding slot_ok_def by auto
qed

lemma step_ok_call: "call G self a i parent = (r, parent') \<Longrightarrow> step_ok r parent parent'"
  using ok_call [of G self a i] unfolding ok_def by (metis fst_conv snd_conv)

lemma run_calls_keeps:
  assumes "cache parent x = Some v"
  shows "cache (run_calls G self cs parent) x = Some v \<and>
         invocations (run_calls G self cs parent) x = invocations parent x"
  using assms
proof (induction cs arbitrary: parent)
  case Nil
  then show ?case by simp
next
  case (Cons c cs)
  obtain a i where c: "c = (a, i)" by (cases c)
  obtain r p1 where run: "call G self a i parent = (r, p1)" by (cases "call G self a i parent")
  have st: "step_ok r parent p1" using run by (rule step_ok_call)
  have kept: "cache p1 x = Some v" and same: "invocations p1 x = invocations parent x"
    using step_okD(1,2) [OF st Cons.prems] by simp_all
  have "cache (run_calls G self cs p1) x = Some v \<and>
        invocations (run_calls G self cs p1) x = invocations p1 x"
    using kept by (rule Cons.IH)
  then show ?case by (simp add: c run same)
qed

lemma diamond_exactly_once:
  fixes parent :: system
  assumes m1: "cache parent (''_instrument_value_vol'', i) = None"
    and m2: "cache parent (''_instrument_currency_vol'', i) = None"
    and m3: "cache parent (''_fx_rate'', i) = None"
    and first: "get_instrument_value_vol G self i parent = (Inr v, parent1)"
    and second: "get_volatility_scalar G self i parent1 = (r, parent2)"
  shows "invocations parent2 (''_instrument_currency_vol'', i) =
           invocations parent (''_instrument_currency_vol'', i) + 1 \<and>
         invocations parent2 (''_fx_rate'', i) = invocations parent (''_fx_rate'', i) + 1"
proof -
  let ?icv = "(''_instrument_currency_vol'', i)" and ?fx = "(''_fx_rate'', i)"
  let ?p0 = "parent\<lparr>compute_log := compute_log parent @ [(''_instrument_value_vol'', i)]\<rparr>"
  from m1 first obtain s1 where
    inner: "local_get_instrument_value_vol G i self ?p0 = (Inr v, s1)"
    and p1: "parent1 = s1\<lparr>cache := (cache s1)((''_instrument_value_vol'', i) \<mapsto> v)\<rparr>"
    unfolding get_instrument_value_vol_def by (rule calc_or_cache_miss_cases)
  from inner obtain u sa where icv: "get_instrument_currency_vol G self i ?p0 = (Inr u, sa)"
    and rest: "bindE (get_fx_rate G self i) (\<lambda>fx_rate.
       bindE (liftE (\<lambda>system. as_frame u)) (\<lambda>instr_ccy_vol.
       bindE (liftE (\<lambda>system. as_frame fx_rate)) (\<lambda>fx_rate.
       returnE (Frame ((multiply_df_single_column instr_ccy_vol fx_rate (False, True))
                       \<lparr>columns := [''ivv'']\<rparr>))))) sa = (Inr v, s1)"
    unfolding local_get_instrument_value_vol_def by (rule bindE_Inr)
  from rest obtain w sb where fx: "get_fx_rate G self i sa = (Inr w, sb)"
    and rest2: "bindE (liftE (\<lambda>system. as_frame u)) (\<lambda>instr_ccy_vol.
       bindE (liftE (\<lambda>system. as_frame w)) (\<lambda>fx_rate.
       returnE (Frame ((multiply_df_single_column instr_ccy_vol fx_rate (False, True))
                       \<lparr>columns := [''ivv'']\<rparr>)))) sb = (Inr v, s1)"
    by (rule bindE_Inr)
  have s1: "s1 = sb"
    using rest2 by (auto simp: bindE_def liftE_def returnE_def split: sum.splits)
  \<comment> \<open>the currency volatility: one invocation, then stored\<close>
  have "invocations (snd (get_instrument_currency_vol G self i ?p0)) ?icv = invocations ?p0 ?icv + 1"
    by (rule get_instrument_currency_vol_miss_invokes) (simp add: m2)
  then have icv_count: "invocations sa ?icv = invocations parent ?icv + 1"
    by (simp add: icv invocations_log_other)
  have icv_stored: "cache sa ?icv = Some u"
    using icv unfolding get_instrument_currency_vol_def by (rule calc_or_cache_stores)
  \<comment> \<open>the FX rate: untouched so far, then one invocation, then stored\<close>
  have av: "avoids ?fx (get_instrument_currency_vol G self i)"
    by (rule avoids_get_instrument_currency_vol) simp_all
  have "cache (snd (get_instrument_currency_vol G self i ?p0)) ?fx = cache ?p0 ?fx \<and>
        invocations (snd (get_instrument_currency_vol G self i ?p0)) ?fx = invocations ?p0 ?fx"
    using av unfolding avoids_def by simp
  then have fx_miss: "cache sa ?fx = None" and fx_before: "invocations sa ?fx = invocations parent ?fx"
    by (simp_all add: icv m3 invocations_log_other)
  have "invocations (snd (get_fx_rate G self i sa)) ?fx = invocations sa ?fx + 1"
    using fx_miss by (rule get_fx_rate_miss_invokes)
  then have fx_count: "invocations sb ?fx = invocations parent ?fx + 1"
    by (simp add: fx fx_before)
  have fx_stored: "cache sb ?fx = Some w"
    using fx unfolding get_fx_rate_def by (rule calc_or_cache_stores)
  have st_fx: "step_ok (Inr w :: error + pyobj) sa sb"
    using ok_get_fx_rate [of G self i] fx unfolding ok_def by (metis fst_conv snd_conv)
  have icv_sb: "cache sb ?icv = Some u" "invocations sb ?icv = invocations sa ?icv"
    using step_okD(1,2) [OF st_fx icv_stored] by simp_all
  \<comment> \<open>after the first access both are stored\<close>
  have c1: "cache parent1 ?icv = Some u" "cache parent1 ?fx = Some w"
    using icv_sb(1) fx_stored by (simp_all add: p1 s1)
  have n1: "invocations parent1 ?icv = invocations parent ?icv + 1"
      "invocations parent1 ?fx = invocations parent ?fx + 1"
    using icv_sb(2) icv_count fx_count by (simp_all add: p1 s1 invocations_cache_upd)
  \<comment> \<open>so the second access leaves them alone\<close>
  have st2: "step_ok r parent1 parent2"
    using ok_get_volatility_scalar [of G self i] second unfolding ok_def by (metis fst_conv snd_conv)
  have "invocations parent2 ?icv = invocations parent1 ?icv"
    using step_okD(2) [OF st2 c1(1)] .
  moreover have "invocations parent2 ?fx = invocations parent1 ?fx"
    using step_okD(2) [OF st2 c1(2)] .
  ultimately show ?thesis using n1 by simp
qed


lemma call_stores:
  assumes "cache_attribute acc = Some a" and "call G self acc i parent = (Inr v, parent')"
  shows "cache parent' (a, cache_key G acc i) = Some v"
  using assms
  by (cases acc)
    (auto simp: cache_key_def get_daily_cash_vol_target_def get_fx_rate_def get_block_value_def
      get_instrument_currency_vol_def get_instrument_value_vol_def get_volatility_scalar_def
      get_subsys_position_def dest: calc_or_cache_stores)

lemma call_hit:
  assumes "cache_attribute acc = Some a" and "cache parent (a, cache_key G acc i) = Some v"
  shows "call G self acc i parent = (Inr v, parent)"
  using assms
  by (cases acc)
    (auto simp: cache_key_def get_daily_cash_vol_target_def get_fx_rate_def get_block_value_def
      get_instrument_currency_vol_def get_instrument_value_vol_def get_volatility_scalar_def
      get_subsys_position_def calc_or_cache_hit)

lemmas example_eval = get_fx_rate_def calc_or_cache_def local_get_fx_rate_def bindE_def liftE_def
      returnE_def get_daily_cash_vol_target_def example_get_vol_target example_ALL_KEYNAME
      as_dict_def as_frame_def example_system_def
      get_instrument_value_vol_def local_get_instrument_value_vol_def
      get_instrument_currency_vol_def local_get_instrument_currency_vol_def
      get_block_value_def local_get_block_value_def get_instrument_sizing_data_def
      get_price_volatility_def get_combined_forecast_def
      get_volatility_scalar_def local_get_volatility_scalar_def
      get_subsys_position_def local_get_subsys_position_def
      multiply_df_single_column_def ffill_def df_map_def scalar_times_df_def df_times_scalar_def
      scalar_div_df_def df_div_scalar_def Let_def

lemma example_instrument_value_vol_BUND:
  "fst (get_instrument_value_vol example_globals example_stage ''BUND'' example_system) =
     Inr (Frame \<lparr>columns = [''ivv''], rows = [(1, Val (597 / 100))]\<rparr>)"
  by (simp add: example_eval)

subsection \<open>The values the compute functions build\<close>

lemma as_frame_Inr: "as_frame v = Inr df \<Longrightarrow> v = Frame df"
  by (cases v) (simp_all add: as_frame_def)

lemma as_dict_Inr: "as_dict v = Inr d \<Longrightarrow> v = Dict d"
  by (cases v) (simp_all add: as_dict_def)

lemma static_eq_log:
  fixes s :: system
  shows "static_eq s (s\<lparr>compute_log := l\<rparr>)"
  by (simp add: static_eq_def)

lemma ok_static:
  assumes "ok m" and "m s = (r, s')"
  shows "static_eq s s'"
  using assms unfolding ok_def step_ok_def by (metis fst_conv snd_conv)

lemma get_price_volatility_Inr:
  assumes "get_price_volatility self i s = (Inr vol, s')"
  shows "rawdata_get_daily_percentage_volatility s i = Inr vol \<and> s' = s"
  using assms
  by (auto simp: get_price_volatility_def bindE_def liftE_def returnE_def split: sum.splits)

lemma get_combined_forecast_Inr:
  assumes "get_combined_forecast self i s = (Inr fc, s')"
  shows "combForecast_get_combined_forecast s i = Inr fc \<and> s' = s"
  using assms by (auto simp: get_combined_forecast_def liftE_def)

lemma multiply_rows_fill_first:
  "multiply_df_single_column a b (True, False) =
     \<lparr>columns = columns a, rows = multiply_filling_first (rows a) (rows b)\<rparr>"
  by (simp add: multiply_df_single_column_def multiply_filling_first_def Let_def)

lemma multiply_rows_fill_second:
  "multiply_df_single_column a b (False, True) =
     \<lparr>columns = columns a, rows = multiply_filling_second (rows a) (rows b)\<rparr>"
  by (simp add: multiply_df_single_column_def multiply_filling_second_def Let_def)

lemma get_instrument_currency_vol_value:
  fixes parent :: system
  assumes miss: "cache parent (''_instrument_currency_vol'', i) = None"
    and run: "get_instrument_currency_vol G self i parent = (Inr v, parent')"
  shows "\<exists>block_value daily_perc_vol.
     fst (get_block_value G self i
            (parent\<lparr>compute_log := compute_log parent @ [(''_instrument_currency_vol'', i)]\<rparr>)) =
       Inr (Frame block_value) \<and>
     rawdata_get_daily_percentage_volatility parent i = Inr daily_perc_vol \<and>
     v = Frame ((multiply_df_single_column block_value daily_perc_vol (True, False))
                  \<lparr>columns := [''icv'']\<rparr>)"
proof -
  let ?p0 = "parent\<lparr>compute_log := compute_log parent @ [(''_instrument_currency_vol'', i)]\<rparr>"
  from miss run obtain s1 where
    inner: "local_get_instrument_currency_vol G i self ?p0 = (Inr v, s1)"
    unfolding get_instrument_currency_vol_def by (rule calc_or_cache_miss_cases)
  from inner obtain u sa where bv: "get_block_value G self i ?p0 = (Inr u, sa)"
    and rest: "bindE (get_price_volatility self i) (\<lambda>daily_perc_vol.
       bindE (liftE (\<lambda>system. as_frame u)) (\<lambda>block_value.
       returnE (Frame ((multiply_df_single_column block_value daily_perc_vol (True, False))
                       \<lparr>columns := [''icv'']\<rparr>)))) sa = (Inr v, s1)"
    unfolding local_get_instrument_currency_vol_def by (rule bindE_Inr)
  from rest obtain vol sb where pv: "get_price_volatility self i sa = (Inr vol, sb)"
    and rest2: "bindE (liftE (\<lambda>system. as_frame u)) (\<lambda>block_value.
       returnE (Frame ((multiply_df_single_column block_value vol (True, False))
                       \<lparr>columns := [''icv'']\<rparr>))) sb = (Inr v, s1)"
    by (rule bindE_Inr)
  from rest2 obtain block_value where fr: "as_frame u = Inr block_value"
    and v: "v = Frame ((multiply_df_single_column block_value vol (True, False))
                       \<lparr>columns := [''icv'']\<rparr>)"
    by (auto simp: bindE_def liftE_def returnE_def split: sum.splits)
  have u: "u = Frame block_value" using fr by (rule as_frame_Inr)
  have "static_eq ?p0 sa" using ok_get_block_value bv by (rule ok_static)
  then have "rawdata_get_daily_percentage_volatility sa = rawdata_get_daily_percentage_volatility parent"
    by (simp add: static_eq_def)
  then have "rawdata_get_daily_percentage_volatility parent i = Inr vol"
    using get_price_volatility_Inr [OF pv] by simp
  then show ?thesis using bv u v by auto
qed

lemma get_instrument_value_vol_value:
  fixes parent :: system
  assumes miss: "cache parent (''_instrument_value_vol'', i) = None"
    and run: "get_instrument_value_vol G self i parent = (Inr v, parent')"
  shows "\<exists>instr_ccy_vol fx_rate sa.
     get_instrument_currency_vol G self i
       (parent\<lparr>compute_log := compute_log parent @ [(''_instrument_value_vol'', i)]\<rparr>) =
       (Inr (Frame instr_ccy_vol), sa) \<and>
     fst (get_fx_rate G self i sa) = Inr (Frame fx_rate) \<and>
     v = Frame ((multiply_df_single_column instr_ccy_vol fx_rate (False, True))
                  \<lparr>columns := [''ivv'']\<rparr>)"
proof -
  let ?p0 = "parent\<lparr>compute_log := compute_log parent @ [(''_instrument_value_vol'', i)]\<rparr>"
  from miss run obtain s1 where
    inner: "local_get_instrument_value_vol G i self ?p0 = (Inr v, s1)"
    unfolding get_instrument_value_vol_def by (rule calc_or_cache_miss_cases)
  from inner obtain u sa where icv: "get_instrument_currency_vol G self i ?p0 = (Inr u, sa)"
    and rest: "bindE (get_fx_rate G self i) (\<lambda>fx_rate.
       bindE (liftE (\<lambda>system. as_frame u)) (\<lambda>instr_ccy_vol.
       bindE (liftE (\<lambda>system. as_frame fx_rate)) (\<lambda>fx_rate.
       returnE (Frame ((multiply_df_single_column instr_ccy_vol fx_rate (False, True))
                       \<lparr>columns := [''ivv'']\<rparr>))))) sa = (Inr v, s1)"
    unfolding local_get_instrument_value_vol_def by (rule bindE_Inr)
  from rest obtain w sb where fx: "get_fx_rate G self i sa = (Inr w, sb)"
    and rest2: "bindE (liftE (\<lambda>system. as_frame u)) (\<lambda>instr_ccy_vol.
       bindE (liftE (\<lambda>system. as_frame w)) (\<lambda>fx_rate.
       returnE (Frame ((multiply_df_single_column instr_ccy_vol fx_rate (False, True))
                       \<lparr>columns := [''ivv'']\<rparr>)))) sb = (Inr v, s1)"
    by (rule bindE_Inr)
  from rest2 obtain instr_ccy_vol fx_rate where fr: "as_frame u = Inr instr_ccy_vol"
      "as_frame w = Inr fx_rate"
    and v: "v = Frame ((multiply_df_single_column instr_ccy_vol fx_rate (False, True))
                       \<lparr>columns := [''ivv'']\<rparr>)"
    by (auto simp: bindE_def liftE_def returnE_def split: sum.splits)
  have "u = Frame instr_ccy_vol" "w = Frame fx_rate"
    using fr by (simp_all add: as_frame_Inr)
  then show ?thesis using icv fx v by auto
qed

lemma get_volatility_scalar_value:
  fixes parent :: system
  assumes miss: "cache parent (''_vol_scalar'', i) = None"
    and run: "get_volatility_scalar G self i parent = (Inr v, parent')"
  shows "\<exists>instr_value_vol d sa.
     get_instrument_value_vol G self i
       (parent\<lparr>compute_log := compute_log parent @ [(''_vol_scalar'', i)]\<rparr>) =
       (Inr (Frame instr_value_vol), sa) \<and>
     fst (get_daily_cash_vol_target G self sa) = Inr (Dict d) \<and>
     v = Frame ((scalar_div_df (daily_cash_vol_target d) instr_value_vol)
                  \<lparr>columns := [''vol_scalar'']\<rparr>)"
proof -
  let ?p0 = "parent\<lparr>compute_log := compute_log parent @ [(''_vol_scalar'', i)]\<rparr>"
  from miss run obtain s1 where
    inner: "local_get_volatility_scalar G i self ?p0 = (Inr v, s1)"
    unfolding get_volatility_scalar_def by (rule calc_or_cache_miss_cases)
  from inner obtain u sa where ivv: "get_instrument_value_vol G self i ?p0 = (Inr u, sa)"
    and rest: "bindE (get_daily_cash_vol_target G self) (\<lambda>vol_target.
       bindE (liftE (\<lambda>system. as_dict vol_target)) (\<lambda>d.
       bindE (liftE (\<lambda>system. as_frame u)) (\<lambda>instr_value_vol.
       returnE (Frame ((scalar_div_df (daily_cash_vol_target d) instr_value_vol)
                       \<lparr>columns := [''vol_scalar'']\<rparr>))))) sa = (Inr v, s1)"
    unfolding local_get_volatility_scalar_def by (rule bindE_Inr)
  from rest obtain w sb where vt: "get_daily_cash_vol_target G self sa = (Inr w, sb)"
    and rest2: "bindE (liftE (\<lambda>system. as_dict w)) (\<lambda>d.
       bindE (liftE (\<lambda>system. as_frame u)) (\<lambda>instr_value_vol.
       returnE (Frame ((scalar_div_df (daily_cash_vol_target d) instr_value_vol)
                       \<lparr>columns := [''vol_scalar'']\<rparr>)))) sb = (Inr v, s1)"
    by (rule bindE_Inr)
  from rest2 obtain d instr_value_vol where fr: "as_dict w = Inr d" "as_frame u = Inr instr_value_vol"
    and v: "v = Frame ((scalar_div_df (daily_cash_vol_target d) instr_value_vol)
                       \<lparr>columns := [''vol_scalar'']\<rparr>)"
    by (auto simp: bindE_def liftE_def returnE_def split: sum.splits)
  have "w = Dict d" "u = Frame instr_value_vol"
    using fr by (simp_all add: as_frame_Inr as_dict_Inr)
  then show ?thesis using ivv vt v by auto
qed

lemma get_subsys_position_value:
  fixes parent :: system
  assumes miss: "cache parent (''_subsys_position'', i) = None"
    and run: "get_subsys_position G self i parent = (Inr v, parent')"
  shows "\<exists>vol_scalar forecast.
     fst (get_volatility_scalar G self i
            (parent\<lparr>compute_log := compute_log parent @ [(''_subsys_position'', i)]\<rparr>)) =
       Inr (Frame vol_scalar) \<and>
     combForecast_get_combined_forecast parent i = Inr forecast \<and>
     v = Frame ((df_div_scalar (multiply_df_single_column vol_scalar forecast (True, False))
                   (default_average_absolute_forecast (system_defaults G)))
                  \<lparr>columns := [''ss_position'']\<rparr>)"
proof -
  let ?p0 = "parent\<lparr>compute_log := compute_log parent @ [(''_subsys_position'', i)]\<rparr>"
  let ?avg = "default_average_absolute_forecast (system_defaults G)"
  from miss run obtain s1 where
    inner: "local_get_subsys_position G i self ?p0 = (Inr v, s1)"
    unfolding get_subsys_position_def by (rule calc_or_cache_miss_cases)
  from inner obtain u sa where vs: "get_volatility_scalar G self i ?p0 = (Inr u, sa)"
    and rest: "bindE (get_combined_forecast self i) (\<lambda>forecast.
      bindE (liftE (\<lambda>system. as_frame u)) (\<lambda>vol_scalar.
      returnE (Frame ((df_div_scalar
                         (multiply_df_single_column vol_scalar forecast (True, False)) ?avg)
                        \<lparr>columns := [''ss_position'']\<rparr>)))) sa = (Inr v, s1)"
    unfolding local_get_subsys_position_def Let_def by (rule bindE_Inr)
  from rest obtain fc sb where cf: "get_combined_forecast self i sa = (Inr fc, sb)"
    and rest2: "bindE (liftE (\<lambda>system. as_frame u)) (\<lambda>vol_scalar.
      returnE (Frame ((df_div_scalar
                         (multiply_df_single_column vol_scalar fc (True, False)) ?avg)
                        \<lparr>columns := [''ss_position'']\<rparr>))) sb = (Inr v, s1)"
    by (rule bindE_Inr)
  from rest2 obtain vol_scalar where fr: "as_frame u = Inr vol_scalar"
    and v: "v = Frame ((df_div_scalar
                         (multiply_df_single_column vol_scalar fc (True, False)) ?avg)
                        \<lparr>columns := [''ss_position'']\<rparr>)"
    by (auto simp: bindE_def liftE_def returnE_def split: sum.splits)
  have u: "u = Frame vol_scalar" using fr by (rule as_frame_Inr)
  have "static_eq ?p0 sa" using ok_get_volatility_scalar vs by (rule ok_static)
  then have "combForecast_get_combined_forecast sa = combForecast_get_combined_forecast parent"
    by (simp add: static_eq_def)
  then have "combForecast_get_combined_forecast parent i = Inr fc"
    using get_combined_forecast_Inr [OF cf] by simp
  then show ?thesis using vs u v by auto
qed

subsection \<open>Forward-fill pairings\<close>

lemma example_average_absolute_forecast:
  "default_average_absolute_forecast (system_defaults example_globals) = 10"
  by (simp add: example_globals_def)

lemma multiply_filling_first_law:
  "multiply_filling_first [(t1, Val 100), (t2, NaN)] [(t1, Val (1 / 100)), (t2, Val (2 / 100))] =
     [(t1, Val 1), (t2, Val 2)]"
  by (simp add: multiply_filling_first_def ffill_def)

lemma multiply_filling_first_second_unfilled:
  "multiply_filling_first [(t1, Val 100), (t2, Val 100)] [(t1, Val (1 / 100)), (t2, NaN)] =
     [(t1, Val 1), (t2, NaN)]"
  by (simp add: multiply_filling_first_def ffill_def)

lemma scalar_div_df_rows:
  "scalar_div_df x df\<lparr>columns := c\<rparr> =
     \<lparr>columns = c, rows = map (\<lambda>(t, y). (t, cell_div (Val x) y)) (rows df)\<rparr>"
  by (simp add: scalar_div_df_def df_map_def)

text \<open>
  Claim C6. On a first access that returns: \<^verbatim>\<open>get_instrument_currency_vol\<close> gives the
  block value times the daily percentage volatility with only the block value
  forward-filled; \<^verbatim>\<open>get_instrument_value_vol\<close> gives the instrument currency volatility
  times the FX rate with only the FX rate forward-filled; \<^verbatim>\<open>get_volatility_scalar\<close> gives
  the daily cash volatility target divided by each cell of the instrument value
  volatility, nothing filled. A block value of 100 and then missing, with volatilities
  0.01 and 0.02, makes the instrument currency volatility 1 and 2; a missing volatility is
  not filled.
\<close>

theorem forward_fill_pairing:
  "(cache parent (''_instrument_currency_vol'', i) = None \<and>
    get_instrument_currency_vol G self i parent = (Inr v, after) \<longrightarrow>
      (\<exists>block_value daily_perc_vol.
         fst (get_block_value G self i
                (parent\<lparr>compute_log := compute_log parent @ [(''_instrument_currency_vol'', i)]\<rparr>)) =
           Inr (Frame block_value) \<and>
         rawdata_get_daily_percentage_volatility parent i = Inr daily_perc_vol \<and>
         v = Frame \<lparr>columns = [''icv''],
               rows = multiply_filling_first (rows block_value) (rows daily_perc_vol)\<rparr>)) \<and>
   (cache parent (''_instrument_value_vol'', i) = None \<and>
    get_instrument_value_vol G self i parent = (Inr v, after) \<longrightarrow>
      (\<exists>instr_ccy_vol fx_rate sa.
         get_instrument_currency_vol G self i
           (parent\<lparr>compute_log := compute_log parent @ [(''_instrument_value_vol'', i)]\<rparr>) =
           (Inr (Frame instr_ccy_vol), sa) \<and>
         fst (get_fx_rate G self i sa) = Inr (Frame fx_rate) \<and>
         v = Frame \<lparr>columns = [''ivv''],
               rows = multiply_filling_second (rows instr_ccy_vol) (rows fx_rate)\<rparr>)) \<and>
   (cache parent (''_vol_scalar'', i) = None \<and>
    get_volatility_scalar G self i parent = (Inr v, after) \<longrightarrow>
      (\<exists>instr_value_vol d sa.
         get_instrument_value_vol G self i
           (parent\<lparr>compute_log := compute_log parent @ [(''_vol_scalar'', i)]\<rparr>) =
           (Inr (Frame instr_value_vol), sa) \<and>
         fst (get_daily_cash_vol_target G self sa) = Inr (Dict d) \<and>
         v = Frame \<lparr>columns = [''vol_scalar''],
               rows = map (\<lambda>(t, y). (t, cell_div (Val (daily_cash_vol_target d)) y))
                        (rows instr_value_vol)\<rparr>)) \<and>
   multiply_filling_first [(t1, Val 100), (t2, NaN)] [(t1, Val (1 / 100)), (t2, Val (2 / 100))] =
     [(t1, Val 1), (t2, Val 2)] \<and>
   multiply_filling_first [(t1, Val 100), (t2, Val 100)] [(t1, Val (1 / 100)), (t2, NaN)] =
     [(t1, Val 1), (t2, NaN)]"
proof (intro conjI impI)
  assume h: "cache parent (''_instrument_currency_vol'', i) = None \<and>
    get_instrument_currency_vol G self i parent = (Inr v, after)"
  then have miss: "cache parent (''_instrument_currency_vol'', i) = None"
    and run: "get_instrument_currency_vol G self i parent = (Inr v, after)" by simp_all
  show "\<exists>block_value daily_perc_vol.
         fst (get_block_value G self i
                (parent\<lparr>compute_log := compute_log parent @ [(''_instrument_currency_vol'', i)]\<rparr>)) =
           Inr (Frame block_value) \<and>
         rawdata_get_daily_percentage_volatility parent i = Inr daily_perc_vol \<and>
         v = Frame \<lparr>columns = [''icv''],
               rows = multiply_filling_first (rows block_value) (rows daily_perc_vol)\<rparr>"
    using get_instrument_currency_vol_value [OF miss run]
    by (simp add: multiply_rows_fill_first)
next
  assume h: "cache parent (''_instrument_value_vol'', i) = None \<and>
    get_instrument_value_vol G self i parent = (Inr v, after)"
  then have miss: "cache parent (''_instrument_value_vol'', i) = None"
    and run: "get_instrument_value_vol G self i parent = (Inr v, after)" by simp_all
  show "\<exists>instr_ccy_vol fx_rate sa.
         get_instrument_currency_vol G self i
           (parent\<lparr>compute_log := compute_log parent @ [(''_instrument_value_vol'', i)]\<rparr>) =
           (Inr (Frame instr_ccy_vol), sa) \<and>
         fst (get_fx_rate G self i sa) = Inr (Frame fx_rate) \<and>
         v = Frame \<lparr>columns = [''ivv''],
               rows = multiply_filling_second (rows instr_ccy_vol) (rows fx_rate)\<rparr>"
    using get_instrument_value_vol_value [OF miss run]
    by (simp add: multiply_rows_fill_second)
next
  assume h: "cache parent (''_vol_scalar'', i) = None \<and>
    get_volatility_scalar G self i parent = (Inr v, after)"
  then have miss: "cache parent (''_vol_scalar'', i) = None"
    and run: "get_volatility_scalar G self i parent = (Inr v, after)" by simp_all
  show "\<exists>instr_value_vol d sa.
         get_instrument_value_vol G self i
           (parent\<lparr>compute_log := compute_log parent @ [(''_vol_scalar'', i)]\<rparr>) =
           (Inr (Frame instr_value_vol), sa) \<and>
         fst (get_daily_cash_vol_target G self sa) = Inr (Dict d) \<and>
         v = Frame \<lparr>columns = [''vol_scalar''],
               rows = map (\<lambda>(t, y). (t, cell_div (Val (daily_cash_vol_target d)) y))
                        (rows instr_value_vol)\<rparr>"
    using get_volatility_scalar_value [OF miss run]
    by (simp add: scalar_div_df_rows)
next
  show "multiply_filling_first [(t1, Val 100), (t2, NaN)]
          [(t1, Val (1 / 100)), (t2, Val (2 / 100))] = [(t1, Val 1), (t2, Val 2)]"
    by (rule multiply_filling_first_law)
  show "multiply_filling_first [(t1, Val 100), (t2, Val 100)] [(t1, Val (1 / 100)), (t2, NaN)] =
     [(t1, Val 1), (t2, NaN)]"
    by (rule multiply_filling_first_second_unfilled)
qed


lemma example_instrument_currency_vol_EDOLLAR:
  "fst (get_instrument_currency_vol example_globals example_stage ''EDOLLAR'' example_system) =
     Inr (Frame \<lparr>columns = [''icv''], rows = [(1, Val 1), (2, Val 2)]\<rparr>)"
  by (simp add: example_eval)

lemma example_instrument_value_vol_EDOLLAR:
  "fst (get_instrument_value_vol example_globals example_stage ''EDOLLAR'' example_system) =
     Inr (Frame \<lparr>columns = [''ivv''], rows = [(1, Val 1), (2, Val 2)]\<rparr>)"
  by (simp add: example_eval)

lemma example_volatility_scalar_EDOLLAR:
  "fst (get_volatility_scalar example_globals example_stage ''EDOLLAR'' example_system) =
     Inr (Frame \<lparr>columns = [''vol_scalar''], rows = [(1, Val 6250), (2, Val 3125)]\<rparr>)"
  by (simp add: example_eval)

text \<open>
  EDOLLAR in the example system has the price 100 on day 1 and none on day 2, a block
  move worth 100, volatilities 0.01 and 0.02, and an FX rate of 1 on day 1 only: the
  three series come out as 1 and 2, 1 and 2, and 6250 and 3125.
\<close>

theorem forward_fill_pairing_witness:
  "cache example_system (''_instrument_currency_vol'', ''EDOLLAR'') = None \<and>
   cache example_system (''_instrument_value_vol'', ''EDOLLAR'') = None \<and>
   cache example_system (''_vol_scalar'', ''EDOLLAR'') = None \<and>
   fst (get_instrument_currency_vol example_globals example_stage ''EDOLLAR'' example_system) =
     Inr (Frame \<lparr>columns = [''icv''], rows = [(1, Val 1), (2, Val 2)]\<rparr>) \<and>
   fst (get_instrument_value_vol example_globals example_stage ''EDOLLAR'' example_system) =
     Inr (Frame \<lparr>columns = [''ivv''], rows = [(1, Val 1), (2, Val 2)]\<rparr>) \<and>
   fst (get_volatility_scalar example_globals example_stage ''EDOLLAR'' example_system) =
     Inr (Frame \<lparr>columns = [''vol_scalar''], rows = [(1, Val 6250), (2, Val 3125)]\<rparr>) \<and>
   (\<exists>(block_value :: dataframe) daily_perc_vol.
      rawdata_get_daily_percentage_volatility example_system ''EDOLLAR'' = Inr daily_perc_vol \<and>
      multiply_filling_first (rows block_value) (rows daily_perc_vol) = [(1, Val 1), (2, Val 2)]) \<and>
   (\<exists>(instr_ccy_vol :: dataframe) (fx_rate :: dataframe).
      multiply_filling_second (rows instr_ccy_vol) (rows fx_rate) = [(1, Val 1), (2, Val 2)]) \<and>
   (\<exists>(instr_value_vol :: dataframe) (d :: vol_target_dict).
      map (\<lambda>(t, y). (t, cell_div (Val (daily_cash_vol_target d)) y)) (rows instr_value_vol) =
        [(1, Val 6250), (2, Val 3125)])"
proof -
  let ?sys = example_system and ?G = example_globals and ?st = example_stage
  have miss: "cache ?sys (''_instrument_currency_vol'', ''EDOLLAR'') = None"
      "cache ?sys (''_instrument_value_vol'', ''EDOLLAR'') = None"
      "cache ?sys (''_vol_scalar'', ''EDOLLAR'') = None"
    by (simp_all add: example_system_def)
  obtain a1 where r1: "get_instrument_currency_vol ?G ?st ''EDOLLAR'' ?sys =
      (Inr (Frame \<lparr>columns = [''icv''], rows = [(1, Val 1), (2, Val 2)]\<rparr>), a1)"
    using example_instrument_currency_vol_EDOLLAR
    by (cases "get_instrument_currency_vol ?G ?st ''EDOLLAR'' ?sys") simp
  obtain a2 where r2: "get_instrument_value_vol ?G ?st ''EDOLLAR'' ?sys =
      (Inr (Frame \<lparr>columns = [''ivv''], rows = [(1, Val 1), (2, Val 2)]\<rparr>), a2)"
    using example_instrument_value_vol_EDOLLAR
    by (cases "get_instrument_value_vol ?G ?st ''EDOLLAR'' ?sys") simp
  obtain a3 where r3: "get_volatility_scalar ?G ?st ''EDOLLAR'' ?sys =
      (Inr (Frame \<lparr>columns = [''vol_scalar''], rows = [(1, Val 6250), (2, Val 3125)]\<rparr>), a3)"
    using example_volatility_scalar_EDOLLAR
    by (cases "get_volatility_scalar ?G ?st ''EDOLLAR'' ?sys") simp
  have c1: "\<exists>(block_value :: dataframe) daily_perc_vol.
      rawdata_get_daily_percentage_volatility ?sys ''EDOLLAR'' = Inr daily_perc_vol \<and>
      multiply_filling_first (rows block_value) (rows daily_perc_vol) = [(1, Val 1), (2, Val 2)]"
  proof -
    have "\<exists>block_value daily_perc_vol.
         fst (get_block_value ?G ?st ''EDOLLAR''
                (?sys\<lparr>compute_log := compute_log ?sys @ [(''_instrument_currency_vol'', ''EDOLLAR'')]\<rparr>)) =
           Inr (Frame block_value) \<and>
         rawdata_get_daily_percentage_volatility ?sys ''EDOLLAR'' = Inr daily_perc_vol \<and>
         Frame \<lparr>columns = [''icv''], rows = [(1, Val 1), (2, Val 2)]\<rparr> =
         Frame \<lparr>columns = [''icv''],
               rows = multiply_filling_first (rows block_value) (rows daily_perc_vol)\<rparr>"
      by (rule forward_fill_pairing [where after = a1, THEN conjunct1, THEN mp])
        (simp add: miss r1)
    then obtain block_value :: dataframe and daily_perc_vol where
      vol: "rawdata_get_daily_percentage_volatility ?sys ''EDOLLAR'' = Inr daily_perc_vol"
      and eq: "Frame \<lparr>columns = [''icv''], rows = [(1, Val 1), (2, Val 2)]\<rparr> =
         Frame \<lparr>columns = [''icv''],
               rows = multiply_filling_first (rows block_value) (rows daily_perc_vol)\<rparr>"
      by blast
    from eq have "multiply_filling_first (rows block_value) (rows daily_perc_vol) =
        [(1, Val 1), (2, Val 2)]"
      by simp
    with vol show ?thesis by blast
  qed
  have c2: "\<exists>(instr_ccy_vol :: dataframe) (fx_rate :: dataframe).
      multiply_filling_second (rows instr_ccy_vol) (rows fx_rate) = [(1, Val 1), (2, Val 2)]"
  proof -
    have "\<exists>instr_ccy_vol fx_rate sa.
         get_instrument_currency_vol ?G ?st ''EDOLLAR''
           (?sys\<lparr>compute_log := compute_log ?sys @ [(''_instrument_value_vol'', ''EDOLLAR'')]\<rparr>) =
           (Inr (Frame instr_ccy_vol), sa) \<and>
         fst (get_fx_rate ?G ?st ''EDOLLAR'' sa) = Inr (Frame fx_rate) \<and>
         Frame \<lparr>columns = [''ivv''], rows = [(1, Val 1), (2, Val 2)]\<rparr> =
         Frame \<lparr>columns = [''ivv''],
               rows = multiply_filling_second (rows instr_ccy_vol) (rows fx_rate)\<rparr>"
      by (rule forward_fill_pairing [where after = a2, THEN conjunct2, THEN conjunct1, THEN mp])
        (simp add: miss r2)
    then obtain instr_ccy_vol :: dataframe and fx_rate :: dataframe where
      eq: "Frame \<lparr>columns = [''ivv''], rows = [(1, Val 1), (2, Val 2)]\<rparr> =
         Frame \<lparr>columns = [''ivv''],
               rows = multiply_filling_second (rows instr_ccy_vol) (rows fx_rate)\<rparr>"
      by blast
    from eq have "multiply_filling_second (rows instr_ccy_vol) (rows fx_rate) =
        [(1, Val 1), (2, Val 2)]"
      by simp
    then show ?thesis by blast
  qed
  have c3: "\<exists>(instr_value_vol :: dataframe) (d :: vol_target_dict).
      map (\<lambda>(t, y). (t, cell_div (Val (daily_cash_vol_target d)) y)) (rows instr_value_vol) =
        [(1, Val 6250), (2, Val 3125)]"
  proof -
    have "\<exists>instr_value_vol d sa.
         get_instrument_value_vol ?G ?st ''EDOLLAR''
           (?sys\<lparr>compute_log := compute_log ?sys @ [(''_vol_scalar'', ''EDOLLAR'')]\<rparr>) =
           (Inr (Frame instr_value_vol), sa) \<and>
         fst (get_daily_cash_vol_target ?G ?st sa) = Inr (Dict d) \<and>
         Frame \<lparr>columns = [''vol_scalar''], rows = [(1, Val 6250), (2, Val 3125)]\<rparr> =
         Frame \<lparr>columns = [''vol_scalar''],
               rows = map (\<lambda>(t, y). (t, cell_div (Val (daily_cash_vol_target d)) y))
                        (rows instr_value_vol)\<rparr>"
      by (rule forward_fill_pairing [where after = a3, THEN conjunct2, THEN conjunct2,
            THEN conjunct1, THEN mp])
        (simp add: miss r3)
    then obtain instr_value_vol :: dataframe and d :: vol_target_dict where
      eq: "Frame \<lparr>columns = [''vol_scalar''], rows = [(1, Val 6250), (2, Val 3125)]\<rparr> =
         Frame \<lparr>columns = [''vol_scalar''],
               rows = map (\<lambda>(t, y). (t, cell_div (Val (daily_cash_vol_target d)) y))
                        (rows instr_value_vol)\<rparr>"
      by (elim exE conjE) (rule that, assumption)
    from eq have "map (\<lambda>(t, y). (t, cell_div (Val (daily_cash_vol_target d)) y)) (rows instr_value_vol) =
        [(1, Val 6250), (2, Val 3125)]"
      by simp
    then show ?thesis by (iprover intro: exI)
  qed
  show ?thesis
    using miss example_instrument_currency_vol_EDOLLAR example_instrument_value_vol_EDOLLAR
      example_volatility_scalar_EDOLLAR c1 c2 c3
    by blast
qed

subsection \<open>The subsystem position\<close>

lemma df_div_scalar_multiply_rows:
  "(df_div_scalar (multiply_df_single_column a b (True, False)) x)\<lparr>columns := c\<rparr> =
     \<lparr>columns = c,
      rows = map (\<lambda>(t, y). (t, cell_div y (Val x))) (multiply_filling_first (rows a) (rows b))\<rparr>"
  by (simp add: df_div_scalar_def df_map_def multiply_rows_fill_first)

lemma position_example:
  "map (\<lambda>(t, y). (t, cell_div y (Val 10)))
     (multiply_filling_first [(t, Val (6250 / (597 / 100)))] [(t, Val (762 / 100))]) =
   [(t, Val (6250 / (597 / 100) * (762 / 100) / 10))]"
  by (simp add: multiply_filling_first_def ffill_def)

lemma position_example_bound:
  "\<bar>(6250 / (597 / 100) * (762 / 100) / 10 :: real) - 7977 / 10\<bar> < 5 / 100"
  by simp

lemma scalar_example_bound: "\<bar>(6250 / (597 / 100) :: real) - 10469 / 10\<bar> < 5 / 100"
  by simp

lemma scalar_div_df_example:
  "scalar_div_df 6250 \<lparr>columns = c, rows = [(t, Val (597 / 100))]\<rparr> =
     \<lparr>columns = c, rows = [(t, Val (6250 / (597 / 100)))]\<rparr>"
  by (simp add: scalar_div_df_def df_map_def)

text \<open>
  Claim C7. On a first access that returns, \<^verbatim>\<open>get_subsys_position\<close> gives the
  volatility scalar times the combined forecast, only the scalar forward-filled, each
  cell over the average absolute forecast; the value is stored under
  (\<^verbatim>\<open>_subsys_position\<close>, instrument), an attribute of the list deleted on recalculation.
  Dividing a target of 6250 by an instrument value volatility of 5.97 gives a scalar
  within 0.05 of 1046.9, and with that scalar, a forecast of 7.62 and an average absolute
  forecast of 10 the position is within 0.05 of 797.7.
\<close>

theorem subsys_position_formula:
  fixes parent :: system
  assumes miss: "cache parent (''_subsys_position'', i) = None"
    and run: "get_subsys_position G self i parent = (Inr v, after)"
  shows "\<exists>vol_scalar forecast.
     fst (get_volatility_scalar G self i
            (parent\<lparr>compute_log := compute_log parent @ [(''_subsys_position'', i)]\<rparr>)) =
       Inr (Frame vol_scalar) \<and>
     combForecast_get_combined_forecast parent i = Inr forecast \<and>
     v = Frame \<lparr>columns = [''ss_position''],
           rows = map (\<lambda>(t, y). (t, cell_div y
                         (Val (default_average_absolute_forecast (system_defaults G)))))
                    (multiply_filling_first (rows vol_scalar) (rows forecast))\<rparr> \<and>
     cache after (''_subsys_position'', i) = Some v \<and>
     ''_subsys_position'' \<in> set (delete_on_recalc (PositionSizing_init p n b)) \<and>
     (\<forall>t. rows vol_scalar = [(t, Val (6250 / (597 / 100)))] \<and>
          rows forecast = [(t, Val (762 / 100))] \<and>
          default_average_absolute_forecast (system_defaults G) = 10 \<longrightarrow>
          (\<exists>y. v = Frame \<lparr>columns = [''ss_position''], rows = [(t, Val y)]\<rparr> \<and>
               \<bar>y - 7977 / 10\<bar> < 5 / 100)) \<and>
     (\<exists>x. scalar_div_df 6250 \<lparr>columns = c, rows = [(t', Val (597 / 100))]\<rparr> =
            \<lparr>columns = c, rows = [(t', Val x)]\<rparr> \<and>
          \<bar>x - 10469 / 10\<bar> < 5 / 100)"
proof -
  let ?avg = "default_average_absolute_forecast (system_defaults G)"
  obtain vol_scalar forecast where
    vs: "fst (get_volatility_scalar G self i
            (parent\<lparr>compute_log := compute_log parent @ [(''_subsys_position'', i)]\<rparr>)) =
       Inr (Frame vol_scalar)"
    and fc: "combForecast_get_combined_forecast parent i = Inr forecast"
    and v0: "v = Frame ((df_div_scalar (multiply_df_single_column vol_scalar forecast (True, False))
                   ?avg)\<lparr>columns := [''ss_position'']\<rparr>)"
    using get_subsys_position_value [OF miss run] by blast
  have v: "v = Frame \<lparr>columns = [''ss_position''],
           rows = map (\<lambda>(t, y). (t, cell_div y (Val ?avg)))
                    (multiply_filling_first (rows vol_scalar) (rows forecast))\<rparr>"
    unfolding v0 by (simp only: df_div_scalar_multiply_rows)
  have stored: "cache after (''_subsys_position'', i) = Some v"
    using run unfolding get_subsys_position_def by (rule calc_or_cache_stores)
  have volatile: "''_subsys_position'' \<in> set (delete_on_recalc (PositionSizing_init p n b))"
    by (simp add: PositionSizing_init_def)
  have example: "\<exists>y. v = Frame \<lparr>columns = [''ss_position''], rows = [(t, Val y)]\<rparr> \<and>
               \<bar>y - 7977 / 10\<bar> < 5 / 100"
    if h: "rows vol_scalar = [(t, Val (6250 / (597 / 100)))] \<and>
          rows forecast = [(t, Val (762 / 100))] \<and> ?avg = 10" for t
  proof -
    have "v = Frame \<lparr>columns = [''ss_position''],
        rows = [(t, Val (6250 / (597 / 100) * (762 / 100) / 10))]\<rparr>"
      unfolding v using h by (simp only: position_example)
    then show ?thesis using position_example_bound by blast
  qed
  have scalar: "\<exists>x. scalar_div_df 6250 \<lparr>columns = c, rows = [(t', Val (597 / 100))]\<rparr> =
            \<lparr>columns = c, rows = [(t', Val x)]\<rparr> \<and> \<bar>x - 10469 / 10\<bar> < 5 / 100"
    using scalar_div_df_example scalar_example_bound by blast
  show ?thesis
    using vs fc v stored volatile example scalar by blast
qed


lemma example_subsys_position_BUND:
  "fst (get_subsys_position example_globals example_stage ''BUND'' example_system) =
     Inr (Frame \<lparr>columns = [''ss_position''],
            rows = [(1, Val (6250 / (597 / 100) * (762 / 100) / 10))]\<rparr>)"
  by (simp add: example_eval example_average_absolute_forecast)

lemma example_volatility_scalar_BUND:
  "fst (get_volatility_scalar example_globals example_stage ''BUND''
          (example_system\<lparr>compute_log :=
             compute_log example_system @ [(''_subsys_position'', ''BUND'')]\<rparr>)) =
     Inr (Frame \<lparr>columns = [''vol_scalar''], rows = [(1, Val (6250 / (597 / 100)))]\<rparr>)"
  by (simp add: example_eval)

text \<open>
  BUND in the example system has an instrument value volatility of 5.97 and a forecast
  of 7.62 on day 1, with a daily target of 6250 and the default divisor 10.
\<close>

theorem subsys_position_formula_witness:
  "cache example_system (''_subsys_position'', ''BUND'') = None \<and>
   (\<exists>after x y.
      get_subsys_position example_globals example_stage ''BUND'' example_system =
        (Inr (Frame \<lparr>columns = [''ss_position''], rows = [(1, Val y)]\<rparr>), after) \<and>
      fst (get_volatility_scalar example_globals example_stage ''BUND''
          (example_system\<lparr>compute_log :=
             compute_log example_system @ [(''_subsys_position'', ''BUND'')]\<rparr>)) =
        Inr (Frame \<lparr>columns = [''vol_scalar''], rows = [(1, Val x)]\<rparr>) \<and>
      \<bar>x - 10469 / 10\<bar> < 5 / 100 \<and>
      \<bar>y - 7977 / 10\<bar> < 5 / 100 \<and>
      cache after (''_subsys_position'', ''BUND'') =
        Some (Frame \<lparr>columns = [''ss_position''], rows = [(1, Val y)]\<rparr>))"
proof -
  let ?sys = example_system and ?G = example_globals and ?st = example_stage
  let ?V = "Frame \<lparr>columns = [''ss_position''],
            rows = [(1, Val (6250 / (597 / 100) * (762 / 100) / 10))]\<rparr>"
  have miss: "cache ?sys (''_subsys_position'', ''BUND'') = None"
    by (simp add: example_system_def)
  obtain after where run: "get_subsys_position ?G ?st ''BUND'' ?sys = (Inr ?V, after)"
    using example_subsys_position_BUND
    by (cases "get_subsys_position ?G ?st ''BUND'' ?sys") simp
  obtain vol_scalar forecast where
    vs: "fst (get_volatility_scalar ?G ?st ''BUND''
            (?sys\<lparr>compute_log := compute_log ?sys @ [(''_subsys_position'', ''BUND'')]\<rparr>)) =
       Inr (Frame vol_scalar)"
    and fc: "combForecast_get_combined_forecast ?sys ''BUND'' = Inr forecast"
    and stored: "cache after (''_subsys_position'', ''BUND'') = Some ?V"
    and example: "\<forall>t. rows vol_scalar = [(t, Val (6250 / (597 / 100)))] \<and>
          rows forecast = [(t, Val (762 / 100))] \<and>
          default_average_absolute_forecast (system_defaults ?G) = 10 \<longrightarrow>
          (\<exists>y. ?V = Frame \<lparr>columns = [''ss_position''], rows = [(t, Val y)]\<rparr> \<and>
               \<bar>y - 7977 / 10\<bar> < 5 / 100)"
    using subsys_position_formula [OF miss run] by blast
  have vs_eq: "vol_scalar = \<lparr>columns = [''vol_scalar''], rows = [(1, Val (6250 / (597 / 100)))]\<rparr>"
    using vs unfolding example_volatility_scalar_BUND by simp
  have vs_rows: "rows vol_scalar = [(1, Val (6250 / (597 / 100)))]"
    unfolding vs_eq by (simp only: dataframe.select_convs)
  have fc_rows: "rows forecast = [(1, Val (762 / 100))]"
    using fc by (auto simp: example_system_def)
  from example vs_rows fc_rows example_average_absolute_forecast
  obtain y where y: "?V = Frame \<lparr>columns = [''ss_position''], rows = [(1, Val y)]\<rparr>"
    and yb: "\<bar>y - 7977 / 10\<bar> < 5 / 100"
    by blast
  have xb: "\<bar>(6250 / (597 / 100) :: real) - 10469 / 10\<bar> < 5 / 100"
    by (rule scalar_example_bound)
  have run': "get_subsys_position ?G ?st ''BUND'' ?sys =
      (Inr (Frame \<lparr>columns = [''ss_position''], rows = [(1, Val y)]\<rparr>), after)"
    using run y by simp
  have stored': "cache after (''_subsys_position'', ''BUND'') =
      Some (Frame \<lparr>columns = [''ss_position''], rows = [(1, Val y)]\<rparr>)"
    using stored y by simp
  have vs': "fst (get_volatility_scalar ?G ?st ''BUND''
            (?sys\<lparr>compute_log := compute_log ?sys @ [(''_subsys_position'', ''BUND'')]\<rparr>)) =
       Inr (Frame \<lparr>columns = [''vol_scalar''], rows = [(1, Val (6250 / (597 / 100)))]\<rparr>)"
    by (rule example_volatility_scalar_BUND)
  show ?thesis
    using miss run' vs' xb yb stored' by blast
qed

subsection \<open>The average absolute forecast\<close>

text \<open>
  Claim C10. For every parent system, so every configuration, and every stage object,
  so every constructor argument: on a first access that returns,
  \<^verbatim>\<open>get_subsys_position\<close> gives the product of the volatility scalar and the forecast with
  each cell divided by \<^verbatim>\<open>system_defaults['average_absolute_forecast']\<close>. The divisor is
  read from the module constant alone; the product is all that the configuration and the
  arguments can change.
\<close>

theorem average_absolute_forecast_is_compiled_default:
  fixes parent :: system
  assumes miss: "cache parent (''_subsys_position'', i) = None"
    and run: "get_subsys_position G self i parent = (Inr v, after)"
  shows "\<exists>product vol_scalar forecast.
     fst (get_volatility_scalar G self i
            (parent\<lparr>compute_log := compute_log parent @ [(''_subsys_position'', i)]\<rparr>)) =
       Inr (Frame vol_scalar) \<and>
     combForecast_get_combined_forecast parent i = Inr forecast \<and>
     product = multiply_df_single_column vol_scalar forecast (True, False) \<and>
     v = Frame ((df_div_scalar product (default_average_absolute_forecast (system_defaults G)))
                  \<lparr>columns := [''ss_position'']\<rparr>)"
  using get_subsys_position_value [OF miss run] by blast

text \<open>
  The configuration of the example system holds an average absolute forecast of 20; the
  position of BUND is divided by the default 10 all the same.
\<close>

theorem average_absolute_forecast_is_compiled_default_witness:
  "cache example_system (''_subsys_position'', ''BUND'') = None \<and>
   config_parameters cfg_average_absolute_forecast example_system = Inr 20 \<and>
   (\<exists>after product vol_scalar forecast.
      get_subsys_position example_globals example_stage ''BUND'' example_system =
        (Inr (Frame ((df_div_scalar product 10)\<lparr>columns := [''ss_position'']\<rparr>)), after) \<and>
      combForecast_get_combined_forecast example_system ''BUND'' = Inr forecast \<and>
      product = multiply_df_single_column vol_scalar forecast (True, False))"
proof -
  let ?sys = example_system and ?G = example_globals and ?st = example_stage
  have miss: "cache ?sys (''_subsys_position'', ''BUND'') = None"
    by (simp add: example_system_def)
  have cfg: "config_parameters cfg_average_absolute_forecast ?sys = Inr 20"
    by (simp add: config_parameters_def example_system_def)
  obtain v after where run: "get_subsys_position ?G ?st ''BUND'' ?sys = (Inr v, after)"
    using example_subsys_position_BUND
    by (cases "get_subsys_position ?G ?st ''BUND'' ?sys") simp
  obtain product vol_scalar forecast where
    fc: "combForecast_get_combined_forecast ?sys ''BUND'' = Inr forecast"
    and pr: "product = multiply_df_single_column vol_scalar forecast (True, False)"
    and v: "v = Frame ((df_div_scalar product
                (default_average_absolute_forecast (system_defaults ?G)))
                  \<lparr>columns := [''ss_position'']\<rparr>)"
    using average_absolute_forecast_is_compiled_default [OF miss run] by blast
  have "get_subsys_position ?G ?st ''BUND'' ?sys =
      (Inr (Frame ((df_div_scalar product 10)\<lparr>columns := [''ss_position'']\<rparr>)), after)"
    using run v by (simp add: example_average_absolute_forecast)
  then show ?thesis
    using miss cfg fc pr by blast
qed

subsection \<open>The shape of the public accessors\<close>

lemma call_delegates:
  assumes "cache_attribute acc = Some attr"
  shows "\<exists>compute_fn. call G self acc i = calc_or_cache attr (cache_key G acc i) compute_fn self"
proof (cases acc)
  case Get_daily_cash_vol_target
  then have "call G self acc i =
      calc_or_cache attr (cache_key G acc i) (get_vol_target G) self"
    using assms by (auto simp: cache_key_def get_daily_cash_vol_target_def)
  then show ?thesis by blast
next
  case Get_fx_rate
  then have "call G self acc i =
      calc_or_cache attr (cache_key G acc i) (local_get_fx_rate G) self"
    using assms by (auto simp: cache_key_def get_fx_rate_def)
  then show ?thesis by blast
next
  case Get_block_value
  then have "call G self acc i =
      calc_or_cache attr (cache_key G acc i) (local_get_block_value G) self"
    using assms by (auto simp: cache_key_def get_block_value_def)
  then show ?thesis by blast
next
  case Get_instrument_currency_vol
  then have "call G self acc i =
      calc_or_cache attr (cache_key G acc i) (local_get_instrument_currency_vol G) self"
    using assms by (auto simp: cache_key_def get_instrument_currency_vol_def)
  then show ?thesis by blast
next
  case Get_instrument_value_vol
  then have "call G self acc i =
      calc_or_cache attr (cache_key G acc i) (local_get_instrument_value_vol G) self"
    using assms by (auto simp: cache_key_def get_instrument_value_vol_def)
  then show ?thesis by blast
next
  case Get_volatility_scalar
  then have "call G self acc i =
      calc_or_cache attr (cache_key G acc i) (local_get_volatility_scalar G) self"
    using assms by (auto simp: cache_key_def get_volatility_scalar_def)
  then show ?thesis by blast
next
  case Get_subsys_position
  then have "call G self acc i =
      calc_or_cache attr (cache_key G acc i) (local_get_subsys_position G) self"
    using assms by (auto simp: cache_key_def get_subsys_position_def)
  then show ?thesis by blast
qed (use assms in simp_all)


lemma call_key_input_state:
  assumes "cache_attribute acc = None"
  shows "snd (call G self acc i parent) = parent"
  using assms
  by (cases acc)
    (auto simp: get_combined_forecast_def get_price_volatility_def
      get_instrument_sizing_data_def bindE_def liftE_def returnE_def split: sum.splits)



subsection \<open>The accessors as calls of the resolver\<close>






subsection \<open>A failed computation stores nothing, whatever the slot\<close>




subsection \<open>Memoization over any run of accesses\<close>

lemma slot_ok_call:
  assumes "call G self a i parent = (r, parent')"
  shows "slot_ok r parent parent' slot"
  using step_ok_call [OF assms] unfolding step_ok_def by blast

lemma run_calls_count:
  "invocations (run_calls G self cs parent) slot =
     invocations parent slot + raised_attempts G self cs parent slot +
     (if cache parent slot = None \<and> cache (run_calls G self cs parent) slot \<noteq> None
      then 1 else 0)"
proof (induction cs arbitrary: parent)
  case Nil
  then show ?case by auto
next
  case (Cons c cs)
  obtain a i where c: "c = (a, i)" by (cases c)
  obtain r p where run: "call G self a i parent = (r, p)" by (cases "call G self a i parent")
  have so: "slot_ok r parent p slot" using run by (rule slot_ok_call)
  have kept: "cache parent slot \<noteq> None \<longrightarrow>
      cache p slot = cache parent slot \<and> invocations p slot = invocations parent slot"
    and mono: "invocations parent slot \<le> invocations p slot"
    and once: "invocations p slot \<le> invocations parent slot + 1"
    and untouched: "cache parent slot = None \<and> invocations p slot = invocations parent slot \<longrightarrow>
      cache p slot = None"
    using so unfolding slot_ok_def by simp_all
  have later: "cache p slot \<noteq> None \<longrightarrow> cache (run_calls G self cs p) slot \<noteq> None"
    using run_calls_keeps [of p slot _ G self cs] by auto
  have IH: "invocations (run_calls G self cs p) slot =
     invocations p slot + raised_attempts G self cs p slot +
     (if cache p slot = None \<and> cache (run_calls G self cs p) slot \<noteq> None then 1 else 0)"
    by (rule Cons.IH)
  have step: "raised_attempts G self (c # cs) parent slot =
      (if invocations parent slot < invocations p slot \<and> cache p slot = None then 1 else 0)
      + raised_attempts G self cs p slot"
    by (simp add: c run Let_def)
  have final: "run_calls G self (c # cs) parent = run_calls G self cs p"
    by (simp add: c run)
  show ?case
  proof (cases "cache parent slot = None")
    case False
    then have "cache p slot \<noteq> None" "invocations p slot = invocations parent slot"
      using kept by simp_all
    then show ?thesis
      unfolding final step IH using False by simp
  next
    case True
    show ?thesis
    proof (cases "invocations p slot = invocations parent slot")
      case same: True
      then have "cache p slot = None" using untouched True by simp
      then show ?thesis
        unfolding final step IH using True same by simp
    next
      case False
      then have plus: "invocations p slot = invocations parent slot + 1"
        using mono once by linarith
      show ?thesis
      proof (cases "cache p slot = None")
        case empty: True
        then show ?thesis
          unfolding final step IH using True plus by simp
      next
        case stored: False
        then have "cache (run_calls G self cs p) slot \<noteq> None" using later by simp
        then show ?thesis
          unfolding final step IH using True plus stored by simp
      qed
    qed
  qed
qed

lemma call_once:
  "invocations (snd (call G self a i parent)) slot \<le> invocations parent slot + 1"
proof -
  obtain r p where run: "call G self a i parent = (r, p)" by (cases "call G self a i parent")
  have "slot_ok r parent p slot" using run by (rule slot_ok_call)
  then show ?thesis by (simp add: slot_ok_def run)
qed


lemma example_invocations_zero: "invocations example_system slot = 0"
  by (simp add: invocations_def example_system_def)

text \<open>
  Claim C1 fails as stated: a compute function that raises is invoked again by the next
  access. On the example system, where GOLD has no FX series, two accesses to the FX rate
  of GOLD with nothing in between invoke the compute function twice.
\<close>

theorem failed_compute_invoked_twice:
  "invocations
     (run_calls example_globals example_stage [(Get_fx_rate, ''GOLD''), (Get_fx_rate, ''GOLD'')]
        example_system) (''_fx_rate'', ''GOLD'') = 2 \<and>
   invocations example_system (''_fx_rate'', ''GOLD'') = 0"
  by (simp add: example_eval invocations_def)

text \<open>
  Claim C1, amended. (1) Once \<^verbatim>\<open>calc_or_cache\<close> has returned a value for (attribute name,
  key), the value is stored there and another call for the same pair returns it and
  leaves the parent, and so the log of invocations, as it is, whatever compute function
  it is given. (2) A first access through an accessor of the stage with a cache
  attribute, if it returns, has invoked the compute function of its slot exactly once
  and stored the value; after any run of further accesses, whether they return or raise,
  the same access returns that value, the slot still holds it, and the count of
  invocations is still that one. (3) Over any run of accesses, for every slot, the
  invocations of its compute function are those that raised, plus one exactly when the
  slot went from empty to stored; and a single access invokes it at most once. (4) In the
  diamond, \<^verbatim>\<open>get_instrument_value_vol\<close> followed by \<^verbatim>\<open>get_volatility_scalar\<close> for the same
  instrument, starting without the three values stored, the compute functions of the
  instrument currency volatility and of the FX rate are each invoked exactly once.
\<close>

theorem memoization_once_returned:
  "(calc_or_cache a k f st parent = (Inr v, after_resolve) \<longrightarrow>
      cache after_resolve (a, k) = Some v \<and>
      calc_or_cache a k f' st' after_resolve = (Inr v, after_resolve)) \<and>
   (cache_attribute acc = Some attr \<and> cache parent (attr, cache_key G acc i) = None \<and>
    call G self acc i parent = (Inr w, after_call) \<longrightarrow>
      invocations after_call (attr, cache_key G acc i) =
        invocations parent (attr, cache_key G acc i) + 1 \<and>
      cache after_call (attr, cache_key G acc i) = Some w \<and>
      call G self acc i (run_calls G self cs after_call) =
        (Inr w, run_calls G self cs after_call) \<and>
      cache (run_calls G self cs after_call) (attr, cache_key G acc i) = Some w \<and>
      invocations (run_calls G self cs after_call) (attr, cache_key G acc i) =
        invocations parent (attr, cache_key G acc i) + 1) \<and>
   invocations (run_calls G self cs' parent) slot =
     invocations parent slot + raised_attempts G self cs' parent slot +
     (if cache parent slot = None \<and> cache (run_calls G self cs' parent) slot \<noteq> None
      then 1 else 0) \<and>
   invocations (snd (call G self acc' i' parent)) slot \<le> invocations parent slot + 1 \<and>
   (cache parent (''_instrument_value_vol'', i) = None \<and>
    cache parent (''_instrument_currency_vol'', i) = None \<and>
    cache parent (''_fx_rate'', i) = None \<and>
    get_instrument_value_vol G self i parent = (Inr u, after_first) \<and>
    get_volatility_scalar G self i after_first = (r, after_second) \<longrightarrow>
      invocations after_second (''_instrument_currency_vol'', i) =
        invocations parent (''_instrument_currency_vol'', i) + 1 \<and>
      invocations after_second (''_fx_rate'', i) = invocations parent (''_fx_rate'', i) + 1)"
proof (intro conjI impI)
  assume "calc_or_cache a k f st parent = (Inr v, after_resolve)"
  then show stored: "cache after_resolve (a, k) = Some v" by (rule calc_or_cache_stores)
  then show "calc_or_cache a k f' st' after_resolve = (Inr v, after_resolve)"
    by (rule calc_or_cache_hit)
next
  let ?slot = "(attr, cache_key G acc i)"
  assume h: "cache_attribute acc = Some attr \<and> cache parent ?slot = None \<and>
    call G self acc i parent = (Inr w, after_call)"
  then have attr: "cache_attribute acc = Some attr" and miss: "cache parent ?slot = None"
    and run: "call G self acc i parent = (Inr w, after_call)"
    by simp_all
  have "invocations (snd (call G self acc i parent)) ?slot = invocations parent ?slot + 1"
    using attr miss by (rule call_miss_invokes)
  then show first: "invocations after_call ?slot = invocations parent ?slot + 1"
    by (simp add: run)
  show stored: "cache after_call ?slot = Some w"
    using attr run by (rule call_stores)
  have kept: "cache (run_calls G self cs after_call) ?slot = Some w \<and>
      invocations (run_calls G self cs after_call) ?slot = invocations after_call ?slot"
    using stored by (rule run_calls_keeps)
  then show "cache (run_calls G self cs after_call) ?slot = Some w" by simp
  then show "call G self acc i (run_calls G self cs after_call) =
      (Inr w, run_calls G self cs after_call)"
    using attr call_hit by blast
  show "invocations (run_calls G self cs after_call) ?slot = invocations parent ?slot + 1"
    using kept first by simp
next
  show "invocations (run_calls G self cs' parent) slot =
     invocations parent slot + raised_attempts G self cs' parent slot +
     (if cache parent slot = None \<and> cache (run_calls G self cs' parent) slot \<noteq> None
      then 1 else 0)"
    by (rule run_calls_count)
next
  show "invocations (snd (call G self acc' i' parent)) slot \<le> invocations parent slot + 1"
    by (rule call_once)
next
  assume h: "cache parent (''_instrument_value_vol'', i) = None \<and>
    cache parent (''_instrument_currency_vol'', i) = None \<and>
    cache parent (''_fx_rate'', i) = None \<and>
    get_instrument_value_vol G self i parent = (Inr u, after_first) \<and>
    get_volatility_scalar G self i after_first = (r, after_second)"
  then have "invocations after_second (''_instrument_currency_vol'', i) =
           invocations parent (''_instrument_currency_vol'', i) + 1 \<and>
         invocations after_second (''_fx_rate'', i) = invocations parent (''_fx_rate'', i) + 1"
    using diamond_exactly_once by blast
  then show "invocations after_second (''_instrument_currency_vol'', i) =
        invocations parent (''_instrument_currency_vol'', i) + 1"
    and "invocations after_second (''_fx_rate'', i) = invocations parent (''_fx_rate'', i) + 1"
    by simp_all
qed

lemma example_raised_attempts:
  "raised_attempts example_globals example_stage
     [(Get_fx_rate, ''GOLD''), (Get_fx_rate, ''BUND''), (Get_fx_rate, ''GOLD'')]
     example_system (''_fx_rate'', ''GOLD'') = 2"
  by (simp add: example_eval invocations_def Let_def)

lemma example_raised_attempts_BUND:
  "raised_attempts example_globals example_stage
     [(Get_fx_rate, ''GOLD''), (Get_fx_rate, ''BUND''), (Get_fx_rate, ''GOLD'')]
     example_system (''_fx_rate'', ''BUND'') = 0"
  by (simp add: example_eval invocations_def Let_def)

lemma example_run_cache:
  "cache (run_calls example_globals example_stage
     [(Get_fx_rate, ''GOLD''), (Get_fx_rate, ''BUND''), (Get_fx_rate, ''GOLD'')]
     example_system) (''_fx_rate'', ''GOLD'') = None \<and>
   cache (run_calls example_globals example_stage
     [(Get_fx_rate, ''GOLD''), (Get_fx_rate, ''BUND''), (Get_fx_rate, ''GOLD'')]
     example_system) (''_fx_rate'', ''BUND'') \<noteq> None"
  by (simp add: example_eval)


text \<open>
  On the example system: the instrument value volatility of BUND is computed once, stored,
  and returned again after a later run in which one access raises, and by the resolver
  even when it is handed a compute function that would raise; in a run that asks for the
  FX rate of GOLD, of BUND and of GOLD again, the compute function for GOLD is invoked
  twice and raises twice, the one for BUND is invoked once; the diamond on BUND invokes
  the two shared compute functions once each.
\<close>

theorem memoization_once_returned_witness:
  "cache_attribute Get_instrument_value_vol = Some ''_instrument_value_vol'' \<and>
   cache example_system
     (''_instrument_value_vol'', cache_key example_globals Get_instrument_value_vol ''BUND'') =
     None \<and>
   cache example_system (''_instrument_currency_vol'', ''BUND'') = None \<and>
   cache example_system (''_fx_rate'', ''BUND'') = None \<and>
   (\<exists>p1 r p2.
      get_instrument_value_vol example_globals example_stage ''BUND'' example_system =
        (Inr (Frame \<lparr>columns = [''ivv''], rows = [(1, Val (597 / 100))]\<rparr>), p1) \<and>
      get_volatility_scalar example_globals example_stage ''BUND'' p1 = (r, p2) \<and>
      invocations p2 (''_instrument_currency_vol'', ''BUND'') = 1 \<and>
      invocations p2 (''_fx_rate'', ''BUND'') = 1 \<and>
      invocations p1 (''_instrument_value_vol'', ''BUND'') = 1 \<and>
      cache p1 (''_instrument_value_vol'', ''BUND'') =
        Some (Frame \<lparr>columns = [''ivv''], rows = [(1, Val (597 / 100))]\<rparr>) \<and>
      call example_globals example_stage Get_instrument_value_vol ''BUND''
        (run_calls example_globals example_stage
           [(Get_volatility_scalar, ''BUND''), (Get_fx_rate, ''GOLD'')] p1) =
        (Inr (Frame \<lparr>columns = [''ivv''], rows = [(1, Val (597 / 100))]\<rparr>),
         run_calls example_globals example_stage
           [(Get_volatility_scalar, ''BUND''), (Get_fx_rate, ''GOLD'')] p1) \<and>
      invocations
        (run_calls example_globals example_stage
           [(Get_volatility_scalar, ''BUND''), (Get_fx_rate, ''GOLD'')] p1)
        (''_instrument_value_vol'', ''BUND'') = 1 \<and>
      calc_or_cache ''_instrument_value_vol'' ''BUND''
        (\<lambda>k st parent. (Inl TypeError, parent)) () p1 =
        (Inr (Frame \<lparr>columns = [''ivv''], rows = [(1, Val (597 / 100))]\<rparr>), p1)) \<and>
   raised_attempts example_globals example_stage
     [(Get_fx_rate, ''GOLD''), (Get_fx_rate, ''BUND''), (Get_fx_rate, ''GOLD'')]
     example_system (''_fx_rate'', ''GOLD'') = 2 \<and>
   invocations
     (run_calls example_globals example_stage
        [(Get_fx_rate, ''GOLD''), (Get_fx_rate, ''BUND''), (Get_fx_rate, ''GOLD'')]
        example_system) (''_fx_rate'', ''GOLD'') = 2 \<and>
   invocations
     (run_calls example_globals example_stage
        [(Get_fx_rate, ''GOLD''), (Get_fx_rate, ''BUND''), (Get_fx_rate, ''GOLD'')]
        example_system) (''_fx_rate'', ''BUND'') = 1"
proof -
  let ?G = example_globals and ?st = example_stage
  let ?V = "Frame \<lparr>columns = [''ivv''], rows = [(1, Val (597 / 100))]\<rparr>"
  let ?later = "[(Get_volatility_scalar, ''BUND''), (Get_fx_rate, ''GOLD'')]"
  let ?run = "[(Get_fx_rate, ''GOLD''), (Get_fx_rate, ''BUND''), (Get_fx_rate, ''GOLD'')]"
  have key: "cache_key ?G Get_instrument_value_vol ''BUND'' = ''BUND''"
    by (simp add: cache_key_def)
  have attr: "cache_attribute Get_instrument_value_vol = Some ''_instrument_value_vol''"
    by simp
  have miss: "cache example_system (''_instrument_value_vol'', ''BUND'') = None"
      "cache example_system (''_instrument_currency_vol'', ''BUND'') = None"
      "cache example_system (''_fx_rate'', ''BUND'') = None"
      "cache example_system (''_fx_rate'', ''GOLD'') = None"
    by (simp_all add: example_system_def)
  obtain p1 where first:
      "get_instrument_value_vol ?G ?st ''BUND'' example_system = (Inr ?V, p1)"
    using example_instrument_value_vol_BUND
    by (cases "get_instrument_value_vol ?G ?st ''BUND'' example_system") simp
  obtain r p2 where second: "get_volatility_scalar ?G ?st ''BUND'' p1 = (r, p2)"
    by (cases "get_volatility_scalar ?G ?st ''BUND'' p1")
  have first_call: "call ?G ?st Get_instrument_value_vol ''BUND'' example_system = (Inr ?V, p1)"
    using first by simp
  have first_resolver: "calc_or_cache ''_instrument_value_vol'' ''BUND''
      (local_get_instrument_value_vol ?G) ?st example_system = (Inr ?V, p1)"
    using first by (simp add: get_instrument_value_vol_def)
  note main = memoization_once_returned [where G = ?G and self = ?st
      and parent = example_system and i = "''BUND''" and cs = ?later
      and acc = Get_instrument_value_vol and attr = "''_instrument_value_vol''"
      and w = ?V and after_call = p1 and u = ?V and after_first = p1 and r = r
      and after_second = p2
      and a = "''_instrument_value_vol''" and k = "''BUND''"
      and f = "local_get_instrument_value_vol ?G" and st = ?st
      and v = ?V and after_resolve = p1
      and f' = "\<lambda>k st parent. (Inl TypeError, parent)" and st' = "()"
      and cs' = ?run, unfolded key]
  have c1: "calc_or_cache ''_instrument_value_vol'' ''BUND''
        (\<lambda>k st parent. (Inl TypeError, parent)) () p1 = (Inr ?V, p1)"
    using main [THEN conjunct1, THEN mp, OF first_resolver] by (rule conjunct2)
  have h2: "cache_attribute Get_instrument_value_vol = Some ''_instrument_value_vol'' \<and>
      cache example_system (''_instrument_value_vol'', ''BUND'') = None \<and>
      call ?G ?st Get_instrument_value_vol ''BUND'' example_system = (Inr ?V, p1)"
    using attr miss(1) first_call by (intro conjI)
  note c2 = main [THEN conjunct2, THEN conjunct1, THEN mp, OF h2]
  have c2a: "invocations p1 (''_instrument_value_vol'', ''BUND'') = 1"
    using c2 [THEN conjunct1] by (simp add: example_invocations_zero)
  have c2b: "cache p1 (''_instrument_value_vol'', ''BUND'') = Some ?V"
    using c2 [THEN conjunct2, THEN conjunct1] .
  have c2c: "call ?G ?st Get_instrument_value_vol ''BUND'' (run_calls ?G ?st ?later p1) =
       (Inr ?V, run_calls ?G ?st ?later p1)"
    using c2 [THEN conjunct2, THEN conjunct2, THEN conjunct1] .
  have c2d: "invocations (run_calls ?G ?st ?later p1) (''_instrument_value_vol'', ''BUND'') = 1"
    using c2 [THEN conjunct2, THEN conjunct2, THEN conjunct2, THEN conjunct2]
    by (simp add: example_invocations_zero del: run_calls.simps)
  have h4: "cache example_system (''_instrument_value_vol'', ''BUND'') = None \<and>
    cache example_system (''_instrument_currency_vol'', ''BUND'') = None \<and>
    cache example_system (''_fx_rate'', ''BUND'') = None \<and>
    get_instrument_value_vol ?G ?st ''BUND'' example_system = (Inr ?V, p1) \<and>
    get_volatility_scalar ?G ?st ''BUND'' p1 = (r, p2)"
    using miss(1) miss(2) miss(3) first second by (intro conjI)
  note c4 = main [THEN conjunct2, THEN conjunct2, THEN conjunct2, THEN conjunct2, THEN mp, OF h4]
  have c4a: "invocations p2 (''_instrument_currency_vol'', ''BUND'') = 1"
    using c4 [THEN conjunct1] by (simp add: example_invocations_zero)
  have c4b: "invocations p2 (''_fx_rate'', ''BUND'') = 1"
    using c4 [THEN conjunct2] by (simp add: example_invocations_zero)
  have c3: "invocations (run_calls ?G ?st ?run example_system) (''_fx_rate'', ''GOLD'') = 2"
    using memoization_once_returned [where G = ?G and self = ?st and parent = example_system
        and cs' = ?run and slot = "(''_fx_rate'', ''GOLD'')",
        THEN conjunct2, THEN conjunct2, THEN conjunct1] example_run_cache
    by (simp add: example_invocations_zero example_raised_attempts
        del: run_calls.simps raised_attempts.simps)
  have c5: "invocations (run_calls ?G ?st ?run example_system) (''_fx_rate'', ''BUND'') = 1"
    using memoization_once_returned [where G = ?G and self = ?st and parent = example_system
        and cs' = ?run and slot = "(''_fx_rate'', ''BUND'')",
        THEN conjunct2, THEN conjunct2, THEN conjunct1] example_run_cache miss(3)
    by (simp add: example_invocations_zero example_raised_attempts_BUND
        del: run_calls.simps raised_attempts.simps)
  have body: "get_instrument_value_vol ?G ?st ''BUND'' example_system = (Inr ?V, p1) \<and>
      get_volatility_scalar ?G ?st ''BUND'' p1 = (r, p2) \<and>
      invocations p2 (''_instrument_currency_vol'', ''BUND'') = 1 \<and>
      invocations p2 (''_fx_rate'', ''BUND'') = 1 \<and>
      invocations p1 (''_instrument_value_vol'', ''BUND'') = 1 \<and>
      cache p1 (''_instrument_value_vol'', ''BUND'') = Some ?V \<and>
      call ?G ?st Get_instrument_value_vol ''BUND'' (run_calls ?G ?st ?later p1) =
        (Inr ?V, run_calls ?G ?st ?later p1) \<and>
      invocations (run_calls ?G ?st ?later p1) (''_instrument_value_vol'', ''BUND'') = 1 \<and>
      calc_or_cache ''_instrument_value_vol'' ''BUND''
        (\<lambda>k st parent. (Inl TypeError, parent)) () p1 = (Inr ?V, p1)"
    using first second c4a c4b c2a c2b c2c c2d c1 by (intro conjI)
  have ex: "\<exists>p1 r p2.
      get_instrument_value_vol ?G ?st ''BUND'' example_system = (Inr ?V, p1) \<and>
      get_volatility_scalar ?G ?st ''BUND'' p1 = (r, p2) \<and>
      invocations p2 (''_instrument_currency_vol'', ''BUND'') = 1 \<and>
      invocations p2 (''_fx_rate'', ''BUND'') = 1 \<and>
      invocations p1 (''_instrument_value_vol'', ''BUND'') = 1 \<and>
      cache p1 (''_instrument_value_vol'', ''BUND'') = Some ?V \<and>
      call ?G ?st Get_instrument_value_vol ''BUND'' (run_calls ?G ?st ?later p1) =
        (Inr ?V, run_calls ?G ?st ?later p1) \<and>
      invocations (run_calls ?G ?st ?later p1) (''_instrument_value_vol'', ''BUND'') = 1 \<and>
      calc_or_cache ''_instrument_value_vol'' ''BUND''
        (\<lambda>k st parent. (Inl TypeError, parent)) () p1 = (Inr ?V, p1)"
    using body by (iprover intro: exI)
  show ?thesis
    unfolding key
    using attr miss(1) miss(2) miss(3) ex example_raised_attempts c3 c5 by (intro conjI)
qed

subsection \<open>The shape of the public accessors, by kind\<close>







end
